theory Spec2Isabelle
  imports Main "HOL-Library.Word"
begin

section \<open>ProofPayEscrow: the data model of the contract\<close>

text \<open>
  The custody engine of the repository is the Solidity contract \<open>ProofPayEscrow\<close>
  (\<open>contracts/Escrow.sol\<close>). Its value types are machine words: an \<open>address\<close> has 160
  bits, \<open>uint256\<close> and \<open>bytes32\<close> have 256 bits. \<open>address(0)\<close> is the word \<open>0\<close>.
\<close>

type_synonym address = "160 word"
type_synonym uint256 = "256 word"
type_synonym bytes32 = "256 word"

datatype EscrowStatus = CREATED | FUNDED | COMPLETED | DISPUTED | REFUNDED | CANCELLED

record Escrow =
  buyer :: address
  seller :: address
  amount :: uint256
  createdAt :: uint256
  autoReleaseTime :: uint256
  status :: EscrowStatus
  disputeRaised :: bool
  disputeRaisedBy :: address

text \<open>
  A Solidity mapping is total: a key that was never written reads as the zero value of
  the struct (all fields zero, the enum at its first member, the flag false).
\<close>

definition zero_escrow :: Escrow where
  "zero_escrow = \<lparr> buyer = 0, seller = 0, amount = 0, createdAt = 0, autoReleaseTime = 0,
     status = CREATED, disputeRaised = False, disputeRaisedBy = 0 \<rparr>"

text \<open>
  A transaction either returns or reverts. A revert is a value: \<open>Revert msg\<close> for a failed
  \<open>require\<close> with its message, \<open>Panic\<close> for the checked arithmetic of Solidity 0.8
  (overflow and underflow), \<open>CallReverted\<close> when the token contract itself reverts
  and the revert bubbles up. A reverted transaction leaves no state behind.
\<close>

datatype error = Revert string | Panic | CallReverted

datatype event =
    EscrowCreated bytes32 address address uint256 uint256
  | EscrowFunded bytes32 uint256
  | EscrowCompleted bytes32 uint256 uint256
  | DisputeRaised bytes32 address
  | DisputeResolved bytes32 uint256 uint256
  | AutoReleaseExecuted bytes32

text \<open>
  The calls the contract makes to the token: \<open>transfer(to, amount)\<close> and
  \<open>transferFrom(from, to, amount)\<close>. The world keeps the list of the calls that were made
  and went through, in order.
\<close>

datatype call = Transfer address uint256 | TransferFrom address address uint256

fun call_amount :: "call \<Rightarrow> nat" where
  "call_amount (Transfer dst a) = unat a"
| "call_amount (TransferFrom src dst a) = unat a"

fun call_recipient :: "call \<Rightarrow> address" where
  "call_recipient (Transfer dst a) = dst"
| "call_recipient (TransferFrom src dst a) = dst"

text \<open>
  The token behind \<open>IERC20 public immutable USDC\<close> is another contract. It is a
  parameter of the model: any state type \<open>'t\<close> and any two functions of the caller, the
  arguments and the token's state, which return the boolean and the new token state, or
  \<open>None\<close> when the token reverts. The token does not call back into the escrow contract.
\<close>

record 't IERC20 =
  transfer :: "address \<Rightarrow> address \<Rightarrow> uint256 \<Rightarrow> 't \<Rightarrow> (bool \<times> 't) option"
  transferFrom :: "address \<Rightarrow> address \<Rightarrow> address \<Rightarrow> uint256 \<Rightarrow> 't \<Rightarrow> (bool \<times> 't) option"

text \<open>
  The storage of the contract (with the \<open>_owner\<close> of Ownable and the flag of
  ReentrancyGuard, both OpenZeppelin 4 base contracts), its own address, the state of
  the token, and the two logs.
\<close>

record 't world =
  self_address :: address
  USDC :: address
  escrows :: "bytes32 \<Rightarrow> Escrow"
  platformFeeBps :: uint256
  feeCollector :: address
  owner :: address
  reentrancy_entered :: bool
  usdc_state :: 't
  calls :: "call list"
  events :: "event list"

record env =
  msg_sender :: address
  block_timestamp :: uint256
  block_number :: uint256

section \<open>Checked arithmetic and sequencing\<close>

definition checked_add :: "uint256 \<Rightarrow> uint256 \<Rightarrow> error + uint256" where
  "checked_add a b = (if unat a + unat b < 2 ^ 256 then Inr (a + b) else Inl Panic)"

definition checked_sub :: "uint256 \<Rightarrow> uint256 \<Rightarrow> error + uint256" where
  "checked_sub a b = (if unat b \<le> unat a then Inr (a - b) else Inl Panic)"

definition checked_mul :: "uint256 \<Rightarrow> uint256 \<Rightarrow> error + uint256" where
  "checked_mul a b = (if unat a * unat b < 2 ^ 256 then Inr (a * b) else Inl Panic)"

definition and_then :: "error + 'a \<Rightarrow> ('a \<Rightarrow> error + 'b) \<Rightarrow> error + 'b" where
  "and_then m f = (case m of Inl e \<Rightarrow> Inl e | Inr x \<Rightarrow> f x)"

definition AUTO_RELEASE_PERIOD :: uint256 where
  "AUTO_RELEASE_PERIOD = 604800"

section \<open>Modifiers and token calls\<close>

text \<open>\<open>nonReentrant\<close> of ReentrancyGuard: refuse when entered, set the flag around the body.\<close>

definition nonReentrant :: "('t world \<Rightarrow> error + 't world) \<Rightarrow> 't world \<Rightarrow> error + 't world" where
  "nonReentrant body w =
     (if reentrancy_entered w then Inl (Revert ''ReentrancyGuard: reentrant call'')
      else and_then (body (w\<lparr>reentrancy_entered := True\<rparr>))
             (\<lambda>w'. Inr (w'\<lparr>reentrancy_entered := False\<rparr>)))"

text \<open>\<open>onlyOwner\<close> of Ownable.\<close>

definition onlyOwner :: "env \<Rightarrow> ('t world \<Rightarrow> error + 't world) \<Rightarrow> 't world \<Rightarrow> error + 't world" where
  "onlyOwner e body w =
     (if owner w \<noteq> msg_sender e then Inl (Revert ''Ownable: caller is not the owner'')
      else body w)"

text \<open>\<open>require(USDC.transfer(to, amt), msg)\<close>, called by the contract itself.\<close>

definition usdc_transfer ::
  "'t IERC20 \<Rightarrow> address \<Rightarrow> uint256 \<Rightarrow> string \<Rightarrow> 't world \<Rightarrow> error + 't world" where
  "usdc_transfer tok dst amt msg w =
     (case transfer tok (self_address w) dst amt (usdc_state w) of
        None \<Rightarrow> Inl CallReverted
      | Some (ok, t') \<Rightarrow>
          if ok then Inr (w\<lparr>usdc_state := t', calls := calls w @ [Transfer dst amt]\<rparr>)
          else Inl (Revert msg))"

text \<open>\<open>require(USDC.transferFrom(from, address(this), amt), msg)\<close>.\<close>

definition usdc_transferFrom ::
  "'t IERC20 \<Rightarrow> address \<Rightarrow> uint256 \<Rightarrow> string \<Rightarrow> 't world \<Rightarrow> error + 't world" where
  "usdc_transferFrom tok src amt msg w =
     (case transferFrom tok (self_address w) src (self_address w) amt (usdc_state w) of
        None \<Rightarrow> Inl CallReverted
      | Some (ok, t') \<Rightarrow>
          if ok then Inr (w\<lparr>usdc_state := t',
                           calls := calls w @ [TransferFrom src (self_address w) amt]\<rparr>)
          else Inl (Revert msg))"

definition set_status :: "bytes32 \<Rightarrow> EscrowStatus \<Rightarrow> 't world \<Rightarrow> 't world" where
  "set_status escrowId st w =
     w\<lparr>escrows := (escrows w)(escrowId := (escrows w escrowId)\<lparr>status := st\<rparr>)\<rparr>"

definition emit :: "event \<Rightarrow> 't world \<Rightarrow> 't world" where
  "emit ev w = w\<lparr>events := events w @ [ev]\<rparr>"

section \<open>The functions of the contract\<close>

text \<open>
  The constructor. Ownable's constructor makes the deployer the owner; the fee starts at
  50 basis points; every escrow slot is zero.
\<close>

definition constructor :: "env \<Rightarrow> address \<Rightarrow> address \<Rightarrow> address \<Rightarrow> 't \<Rightarrow> error + 't world" where
  "constructor e usdcAddress feeCollector0 self t =
     (if usdcAddress = 0 then Inl (Revert ''Invalid USDC address'')
      else if feeCollector0 = 0 then Inl (Revert ''Invalid fee collector'')
      else Inr \<lparr> self_address = self, USDC = usdcAddress, escrows = (\<lambda>_. zero_escrow),
                 platformFeeBps = 50, feeCollector = feeCollector0, owner = msg_sender e,
                 reentrancy_entered = False, usdc_state = t, calls = [], events = [] \<rparr>)"

text \<open>
  \<open>createEscrow\<close>. The identifier is
  \<open>keccak256(abi.encodePacked(buyer, seller, amount, block.timestamp, block.number))\<close>;
  the hash is a parameter \<open>kec\<close> of the model, any function of the five values.
\<close>

type_synonym hashfn = "address \<Rightarrow> address \<Rightarrow> uint256 \<Rightarrow> uint256 \<Rightarrow> uint256 \<Rightarrow> bytes32"

definition createEscrow ::
  "hashfn \<Rightarrow> env \<Rightarrow> address \<Rightarrow> address \<Rightarrow> uint256 \<Rightarrow> 't world \<Rightarrow> error + (bytes32 \<times> 't world)" where
  "createEscrow kec e buyer0 seller0 amount0 w =
     (if \<not> (buyer0 \<noteq> 0 \<and> seller0 \<noteq> 0) then Inl (Revert ''Invalid addresses'')
      else if \<not> (buyer0 \<noteq> seller0) then Inl (Revert ''Buyer and seller cannot be the same'')
      else if \<not> (amount0 > 0) then Inl (Revert ''Amount must be greater than 0'')
      else
        let escrowId = kec buyer0 seller0 amount0 (block_timestamp e) (block_number e) in
        if \<not> (buyer (escrows w escrowId) = 0) then Inl (Revert ''Escrow already exists'')
        else
          and_then (checked_add (block_timestamp e) AUTO_RELEASE_PERIOD) (\<lambda>autoReleaseTime0.
            Inr (escrowId,
              emit (EscrowCreated escrowId buyer0 seller0 amount0 autoReleaseTime0)
                (w\<lparr>escrows := (escrows w)(escrowId :=
                     \<lparr> buyer = buyer0, seller = seller0, amount = amount0,
                       createdAt = block_timestamp e, autoReleaseTime = autoReleaseTime0,
                       status = CREATED, disputeRaised = False, disputeRaisedBy = 0 \<rparr>)\<rparr>))))"

definition fundEscrow :: "'t IERC20 \<Rightarrow> env \<Rightarrow> bytes32 \<Rightarrow> 't world \<Rightarrow> error + 't world" where
  "fundEscrow tok e escrowId = nonReentrant (\<lambda>w.
     if \<not> (status (escrows w escrowId) = CREATED) then Inl (Revert ''Invalid escrow status'')
     else if \<not> (msg_sender e = buyer (escrows w escrowId)) then Inl (Revert ''Only buyer can fund'')
     else
       and_then (usdc_transferFrom tok (msg_sender e) (amount (escrows w escrowId))
                   ''USDC transfer failed'' w) (\<lambda>w1.
         Inr (emit (EscrowFunded escrowId (amount (escrows w1 escrowId)))
                (set_status escrowId FUNDED w1))))"

text \<open>The internal payout of a release.\<close>

definition completeEscrow :: "'t IERC20 \<Rightarrow> bytes32 \<Rightarrow> 't world \<Rightarrow> error + 't world" where
  "completeEscrow tok escrowId w =
     and_then (checked_mul (amount (escrows w escrowId)) (platformFeeBps w)) (\<lambda>product.
       let platformFee = product div 10000 in
       and_then (checked_sub (amount (escrows w escrowId)) platformFee) (\<lambda>sellerAmount.
         and_then (usdc_transfer tok (seller (escrows w escrowId)) sellerAmount
                     ''Seller transfer failed'' w) (\<lambda>w1.
           and_then (usdc_transfer tok (feeCollector w1) platformFee
                       ''Fee transfer failed'' w1) (\<lambda>w2.
             Inr (emit (EscrowCompleted escrowId sellerAmount platformFee)
                    (set_status escrowId COMPLETED w2))))))"

definition releaseFunds :: "'t IERC20 \<Rightarrow> env \<Rightarrow> bytes32 \<Rightarrow> 't world \<Rightarrow> error + 't world" where
  "releaseFunds tok e escrowId = nonReentrant (\<lambda>w.
     if \<not> (status (escrows w escrowId) = FUNDED) then Inl (Revert ''Escrow not funded'')
     else if \<not> (msg_sender e = buyer (escrows w escrowId)) then Inl (Revert ''Only buyer can release'')
     else if \<not> (\<not> disputeRaised (escrows w escrowId)) then Inl (Revert ''Dispute is active'')
     else completeEscrow tok escrowId w)"

definition autoRelease :: "'t IERC20 \<Rightarrow> env \<Rightarrow> bytes32 \<Rightarrow> 't world \<Rightarrow> error + 't world" where
  "autoRelease tok e escrowId = nonReentrant (\<lambda>w.
     if \<not> (status (escrows w escrowId) = FUNDED) then Inl (Revert ''Escrow not funded'')
     else if \<not> (block_timestamp e \<ge> autoReleaseTime (escrows w escrowId))
       then Inl (Revert ''Auto-release time not reached'')
     else if \<not> (\<not> disputeRaised (escrows w escrowId)) then Inl (Revert ''Dispute is active'')
     else and_then (completeEscrow tok escrowId w) (\<lambda>w1.
            Inr (emit (AutoReleaseExecuted escrowId) w1)))"

definition raiseDispute :: "env \<Rightarrow> bytes32 \<Rightarrow> 't world \<Rightarrow> error + 't world" where
  "raiseDispute e escrowId w =
     (if \<not> (status (escrows w escrowId) = FUNDED) then Inl (Revert ''Escrow not funded'')
      else if \<not> (msg_sender e = buyer (escrows w escrowId) \<or> msg_sender e = seller (escrows w escrowId))
        then Inl (Revert ''Only buyer or seller can dispute'')
      else if \<not> (\<not> disputeRaised (escrows w escrowId)) then Inl (Revert ''Dispute already raised'')
      else Inr (emit (DisputeRaised escrowId (msg_sender e))
                  (w\<lparr>escrows := (escrows w)(escrowId := (escrows w escrowId)
                        \<lparr>status := DISPUTED, disputeRaised := True,
                         disputeRaisedBy := msg_sender e\<rparr>)\<rparr>)))"

text \<open>The two guarded payouts of \<open>resolveDispute\<close>, each an \<open>if\<close> block of the source.\<close>

definition pay_buyer :: "'t IERC20 \<Rightarrow> bytes32 \<Rightarrow> uint256 \<Rightarrow> 't world \<Rightarrow> error + 't world" where
  "pay_buyer tok escrowId buyerAmount w =
     (if buyerAmount > 0
      then usdc_transfer tok (buyer (escrows w escrowId)) buyerAmount ''Buyer transfer failed'' w
      else Inr w)"

definition pay_seller :: "'t IERC20 \<Rightarrow> bytes32 \<Rightarrow> uint256 \<Rightarrow> 't world \<Rightarrow> error + 't world" where
  "pay_seller tok escrowId sellerAmount w =
     (if sellerAmount > 0
      then and_then (checked_mul sellerAmount (platformFeeBps w)) (\<lambda>product.
             let platformFee = product div 10000 in
             and_then (checked_sub sellerAmount platformFee) (\<lambda>sellerNet.
               and_then (usdc_transfer tok (seller (escrows w escrowId)) sellerNet
                           ''Seller transfer failed'' w) (\<lambda>w1.
                 usdc_transfer tok (feeCollector w1) platformFee ''Fee transfer failed'' w1)))
      else Inr w)"

definition resolveDispute ::
  "'t IERC20 \<Rightarrow> env \<Rightarrow> bytes32 \<Rightarrow> uint256 \<Rightarrow> 't world \<Rightarrow> error + 't world" where
  "resolveDispute tok e escrowId buyerPercentage = onlyOwner e (nonReentrant (\<lambda>w.
     if \<not> (status (escrows w escrowId) = DISPUTED) then Inl (Revert ''Not in dispute'')
     else if \<not> (buyerPercentage \<le> 100) then Inl (Revert ''Invalid percentage'')
     else
       let totalAmount = amount (escrows w escrowId) in
       and_then (checked_mul totalAmount buyerPercentage) (\<lambda>product.
         let buyerAmount = product div 100 in
         and_then (checked_sub totalAmount buyerAmount) (\<lambda>sellerAmount.
           and_then (pay_buyer tok escrowId buyerAmount w) (\<lambda>w1.
             and_then (pay_seller tok escrowId sellerAmount w1) (\<lambda>w2.
               Inr (emit (DisputeResolved escrowId buyerAmount sellerAmount)
                      (set_status escrowId COMPLETED w2))))))))"

definition updatePlatformFee :: "env \<Rightarrow> uint256 \<Rightarrow> 't world \<Rightarrow> error + 't world" where
  "updatePlatformFee e newFeeBps = onlyOwner e (\<lambda>w.
     if \<not> (newFeeBps \<le> 1000) then Inl (Revert ''Fee too high'')
     else Inr (w\<lparr>platformFeeBps := newFeeBps\<rparr>))"

definition updateFeeCollector :: "env \<Rightarrow> address \<Rightarrow> 't world \<Rightarrow> error + 't world" where
  "updateFeeCollector e newCollector = onlyOwner e (\<lambda>w.
     if \<not> (newCollector \<noteq> 0) then Inl (Revert ''Invalid address'')
     else Inr (w\<lparr>feeCollector := newCollector\<rparr>))"

text \<open>
  \<open>getEscrow\<close> is a view: it copies the slot of the mapping and returns seven of its
  fields. It has no \<open>require\<close>.
\<close>

definition getEscrow ::
  "'t world \<Rightarrow> bytes32 \<Rightarrow>
   error + (address \<times> address \<times> uint256 \<times> uint256 \<times> uint256 \<times> EscrowStatus \<times> bool)" where
  "getEscrow w escrowId =
     (let escrow = escrows w escrowId in
      Inr (buyer escrow, seller escrow, amount escrow, createdAt escrow,
           autoReleaseTime escrow, status escrow, disputeRaised escrow))"

text \<open>
  The two public functions the contract inherits from Ownable (OpenZeppelin 4):
  \<open>transferOwnership\<close> and \<open>renounceOwnership\<close>.
\<close>

definition transferOwnership :: "env \<Rightarrow> address \<Rightarrow> 't world \<Rightarrow> error + 't world" where
  "transferOwnership e newOwner = onlyOwner e (\<lambda>w.
     if \<not> (newOwner \<noteq> 0) then Inl (Revert ''Ownable: new owner is the zero address'')
     else Inr (w\<lparr>owner := newOwner\<rparr>))"

definition renounceOwnership :: "env \<Rightarrow> 't world \<Rightarrow> error + 't world" where
  "renounceOwnership e = onlyOwner e (\<lambda>w. Inr (w\<lparr>owner := 0\<rparr>))"

section \<open>Transactions and reachable states\<close>

datatype tx =
    CreateEscrow address address uint256
  | FundEscrow bytes32
  | ReleaseFunds bytes32
  | AutoRelease bytes32
  | RaiseDispute bytes32
  | ResolveDispute bytes32 uint256
  | UpdatePlatformFee uint256
  | UpdateFeeCollector address
  | TransferOwnership address
  | RenounceOwnership

fun exec :: "'t IERC20 \<Rightarrow> hashfn \<Rightarrow> env \<Rightarrow> tx \<Rightarrow> 't world \<Rightarrow> error + 't world" where
  "exec tok kec e (CreateEscrow b s a) w = and_then (createEscrow kec e b s a w) (\<lambda>(i, w'). Inr w')"
| "exec tok kec e (FundEscrow i) w = fundEscrow tok e i w"
| "exec tok kec e (ReleaseFunds i) w = releaseFunds tok e i w"
| "exec tok kec e (AutoRelease i) w = autoRelease tok e i w"
| "exec tok kec e (RaiseDispute i) w = raiseDispute e i w"
| "exec tok kec e (ResolveDispute i p) w = resolveDispute tok e i p w"
| "exec tok kec e (UpdatePlatformFee f) w = updatePlatformFee e f w"
| "exec tok kec e (UpdateFeeCollector c) w = updateFeeCollector e c w"
| "exec tok kec e (TransferOwnership n) w = transferOwnership e n w"
| "exec tok kec e RenounceOwnership w = renounceOwnership e w"

text \<open>
  A sequence of transactions, each with its own sender and block. A transaction that
  reverts leaves the world as it was.
\<close>

fun run :: "'t IERC20 \<Rightarrow> hashfn \<Rightarrow> (env \<times> tx) list \<Rightarrow> 't world \<Rightarrow> 't world" where
  "run tok kec [] w = w"
| "run tok kec ((e, t) # rest) w =
     (case exec tok kec e t w of Inl err \<Rightarrow> run tok kec rest w | Inr w' \<Rightarrow> run tok kec rest w')"

text \<open>
  The states the contract can be in: the one the constructor leaves, then any
  transaction that returns, sent by an account (no account has the zero address, so
  \<open>msg.sender\<close> is never \<open>address(0)\<close>); between them the token's own state may change
  in any way, since other accounts use the token too.
\<close>

inductive reachable :: "'t IERC20 \<Rightarrow> hashfn \<Rightarrow> 't world \<Rightarrow> bool" for tok :: "'t IERC20" and kec :: hashfn where
  reach_init: "constructor e usdcAddress feeCollector0 self t = Inr w \<Longrightarrow> msg_sender e \<noteq> 0
     \<Longrightarrow> reachable tok kec w"
| reach_tx: "reachable tok kec w \<Longrightarrow> msg_sender e \<noteq> 0 \<Longrightarrow> exec tok kec e t w = Inr w'
     \<Longrightarrow> reachable tok kec w'"
| reach_token: "reachable tok kec w \<Longrightarrow> reachable tok kec (w\<lparr>usdc_state := t\<rparr>)"


section \<open>Observations\<close>

text \<open>The token calls a transaction made: what it appended to the log of calls.\<close>

definition new_calls :: "'t world \<Rightarrow> 't world \<Rightarrow> call list" where
  "new_calls w w' = drop (length (calls w)) (calls w')"

text \<open>The outcome of a transaction, seen from outside: its revert, or the calls it made.\<close>

definition transfers_made :: "'t world \<Rightarrow> error + 't world \<Rightarrow> error + call list" where
  "transfers_made w r = (case r of Inl err \<Rightarrow> Inl err | Inr w' \<Rightarrow> Inr (new_calls w w'))"

text \<open>
  The order on the states that the design document gives:
  Created < Funded < {Completed, Disputed, Refunded, Cancelled}.
\<close>

fun status_rank :: "EscrowStatus \<Rightarrow> nat" where
  "status_rank CREATED = 0"
| "status_rank FUNDED = 1"
| "status_rank COMPLETED = 2"
| "status_rank DISPUTED = 2"
| "status_rank REFUNDED = 2"
| "status_rank CANCELLED = 2"

text \<open>An identifier was created when the log holds its \<open>EscrowCreated\<close> event.\<close>

fun is_created :: "bytes32 \<Rightarrow> event \<Rightarrow> bool" where
  "is_created i (EscrowCreated j b s a t) = (i = j)"
| "is_created i (EscrowFunded j a) = False"
| "is_created i (EscrowCompleted j a f) = False"
| "is_created i (DisputeRaised j a) = False"
| "is_created i (DisputeResolved j a b) = False"
| "is_created i (AutoReleaseExecuted j) = False"


text \<open>What a transaction leaves in one record: its status and its dispute flag.\<close>

definition dispute_view :: "bytes32 \<Rightarrow> error + 't world \<Rightarrow> error + (EscrowStatus \<times> bool)" where
  "dispute_view i r =
     (case r of Inl err \<Rightarrow> Inl err
      | Inr w' \<Rightarrow> Inr (status (escrows w' i), disputeRaised (escrows w' i)))"

section \<open>Invariants of the stored records\<close>

text \<open>What one transaction can do to one slot of the mapping.\<close>

definition transition :: "address \<Rightarrow> Escrow \<Rightarrow> Escrow \<Rightarrow> bool" where
  "transition sender old new \<longleftrightarrow>
     new = old
   \<or> (buyer old = 0 \<and> buyer new \<noteq> 0 \<and> seller new \<noteq> 0 \<and> buyer new \<noteq> seller new \<and>
      amount new > 0 \<and> status new = CREATED \<and> \<not> disputeRaised new \<and>
      unat (autoReleaseTime new) = unat (createdAt new) + 604800)
   \<or> (status old = CREATED \<and> sender = buyer old \<and> new = old\<lparr>status := FUNDED\<rparr>)
   \<or> (status old = FUNDED \<and> \<not> disputeRaised old \<and> new = old\<lparr>status := COMPLETED\<rparr>)
   \<or> (status old = FUNDED \<and> \<not> disputeRaised old \<and>
      new = old\<lparr>status := DISPUTED, disputeRaised := True, disputeRaisedBy := sender\<rparr>)
   \<or> (status old = DISPUTED \<and> new = old\<lparr>status := COMPLETED\<rparr>)"


text \<open>What holds of every slot in every reachable state.\<close>

definition good :: "Escrow \<Rightarrow> bool" where
  "good r \<longleftrightarrow>
     (buyer r = 0 \<longrightarrow> seller r = 0 \<and> amount r = 0 \<and> createdAt r = 0 \<and> autoReleaseTime r = 0 \<and>
        status r = CREATED \<and> \<not> disputeRaised r \<and> disputeRaisedBy r = 0) \<and>
     (buyer r \<noteq> 0 \<longrightarrow> amount r > 0 \<and> seller r \<noteq> 0 \<and> buyer r \<noteq> seller r \<and>
        unat (autoReleaseTime r) = unat (createdAt r) + 604800) \<and>
     (disputeRaised r \<longrightarrow> status r = DISPUTED \<or> status r = COMPLETED) \<and>
     (status r = DISPUTED \<longrightarrow> disputeRaised r)"


definition config_ok :: "'t world \<Rightarrow> bool" where
  "config_ok w \<longleftrightarrow> \<not> reentrancy_entered w \<and> platformFeeBps w \<le> 1000 \<and> feeCollector w \<noteq> 0"


definition created_link :: "'t world \<Rightarrow> bytes32 \<Rightarrow> bool" where
  "created_link w i \<longleftrightarrow> (buyer (escrows w i) \<noteq> 0) = list_ex (is_created i) (events w)"


text \<open>
  The arithmetic of a payout, read in the natural numbers: the fee of a share \<open>a\<close> at
  \<open>bps\<close> basis points, and the buyer's part of \<open>a\<close> at \<open>p\<close> percent, are what the
  word operations compute when nothing wraps.
\<close>

definition fee_split :: "uint256 \<Rightarrow> uint256 \<Rightarrow> bool" where
  "fee_split a bps \<longleftrightarrow>
     unat (a * bps div 10000) = unat a * unat bps div 10000 \<and>
     unat (a * bps div 10000) \<le> unat a \<and>
     unat (a - a * bps div 10000) = unat a - unat (a * bps div 10000)"

definition share_split :: "uint256 \<Rightarrow> uint256 \<Rightarrow> bool" where
  "share_split a p \<longleftrightarrow>
     unat (a * p div 100) = unat a * unat p div 100 \<and>
     unat (a * p div 100) \<le> unat a \<and>
     unat (a - a * p div 100) = unat a - unat (a * p div 100)"

section \<open>A concrete deployment\<close>

text \<open>
  Five accounts, a token that keeps a balance for each address and reverts on an
  insufficient balance, and the states of one escrow of 1,000,000 units at 50 basis
  points: deployed, created, funded, then either released, or disputed and resolved with
  30 percent to the buyer. They are the concrete inputs of the examples below.
\<close>

definition alice :: address where "alice = 1"
definition bob :: address where "bob = 2"
definition carol :: address where "carol = 3"
definition arbiter :: address where "arbiter = 4"
definition escrow_contract :: address where "escrow_contract = 5"
definition usdc_contract :: address where "usdc_contract = 6"

definition demo_token :: "(address \<Rightarrow> nat) IERC20" where
  "demo_token = \<lparr>
     transfer = (\<lambda>caller dst amt bal.
        if bal caller < unat amt then None
        else Some (True, (bal(caller := bal caller - unat amt))
                           (dst := (bal(caller := bal caller - unat amt)) dst + unat amt))),
     transferFrom = (\<lambda>caller src dst amt bal.
        if bal src < unat amt then None
        else Some (True, (bal(src := bal src - unat amt))
                           (dst := (bal(src := bal src - unat amt)) dst + unat amt))) \<rparr>"

definition demo_kec :: hashfn where
  "demo_kec b s a ts n = a + ts + n"

definition demo_env :: "address \<Rightarrow> uint256 \<Rightarrow> env" where
  "demo_env sender ts = \<lparr> msg_sender = sender, block_timestamp = ts, block_number = 1 \<rparr>"

definition demo_id :: bytes32 where "demo_id = 1001001"

definition demo_escrow :: Escrow where
  "demo_escrow = \<lparr> buyer = alice, seller = bob, amount = 1000000, createdAt = 1000,
     autoReleaseTime = 605800, status = CREATED, disputeRaised = False, disputeRaisedBy = 0 \<rparr>"

definition demo_deployed :: "(address \<Rightarrow> nat) world" where
  "demo_deployed = \<lparr> self_address = escrow_contract, USDC = usdc_contract,
     escrows = (\<lambda>_. zero_escrow), platformFeeBps = 50, feeCollector = carol, owner = arbiter,
     reentrancy_entered = False, usdc_state = (\<lambda>_. 0)(alice := 5000000),
     calls = [], events = [] \<rparr>"

definition demo_created :: "(address \<Rightarrow> nat) world" where
  "demo_created = demo_deployed\<lparr>
     escrows := (\<lambda>_. zero_escrow)(demo_id := demo_escrow),
     events := [EscrowCreated demo_id alice bob 1000000 605800] \<rparr>"

definition demo_funded :: "(address \<Rightarrow> nat) world" where
  "demo_funded = demo_created\<lparr>
     escrows := (\<lambda>_. zero_escrow)(demo_id := demo_escrow\<lparr>status := FUNDED\<rparr>),
     usdc_state := (\<lambda>_. 0)(alice := 4000000, escrow_contract := 1000000),
     calls := [TransferFrom alice escrow_contract 1000000],
     events := [EscrowCreated demo_id alice bob 1000000 605800, EscrowFunded demo_id 1000000] \<rparr>"

definition demo_released :: "(address \<Rightarrow> nat) world" where
  "demo_released = demo_funded\<lparr>
     escrows := (\<lambda>_. zero_escrow)(demo_id := demo_escrow\<lparr>status := COMPLETED\<rparr>),
     usdc_state := (\<lambda>_. 0)(alice := 4000000, bob := 995000, escrow_contract := 0, carol := 5000),
     calls := [TransferFrom alice escrow_contract 1000000, Transfer bob 995000, Transfer carol 5000],
     events := [EscrowCreated demo_id alice bob 1000000 605800, EscrowFunded demo_id 1000000,
                EscrowCompleted demo_id 995000 5000] \<rparr>"

definition demo_disputed :: "(address \<Rightarrow> nat) world" where
  "demo_disputed = demo_funded\<lparr>
     escrows := (\<lambda>_. zero_escrow)(demo_id := demo_escrow
        \<lparr>status := DISPUTED, disputeRaised := True, disputeRaisedBy := bob\<rparr>),
     events := [EscrowCreated demo_id alice bob 1000000 605800, EscrowFunded demo_id 1000000,
                DisputeRaised demo_id bob] \<rparr>"

definition demo_resolved :: "(address \<Rightarrow> nat) world" where
  "demo_resolved = demo_disputed\<lparr>
     escrows := (\<lambda>_. zero_escrow)(demo_id := demo_escrow
        \<lparr>status := COMPLETED, disputeRaised := True, disputeRaisedBy := bob\<rparr>),
     usdc_state := (\<lambda>_. 0)(alice := 4300000, bob := 696500, escrow_contract := 0, carol := 3500),
     calls := [TransferFrom alice escrow_contract 1000000, Transfer alice 300000,
               Transfer bob 696500, Transfer carol 3500],
     events := [EscrowCreated demo_id alice bob 1000000 605800, EscrowFunded demo_id 1000000,
                DisputeRaised demo_id bob, DisputeResolved demo_id 300000 700000] \<rparr>"

text \<open>The funded state after the owner has set the fee to zero basis points.\<close>

definition demo_nofee :: "(address \<Rightarrow> nat) world" where
  "demo_nofee = demo_funded\<lparr>platformFeeBps := 0\<rparr>"

text \<open>
  The funded state after \<open>autoRelease\<close> at the deadline, and the disputed state at a
  fee of zero basis points.
\<close>

definition demo_auto_released :: "(address \<Rightarrow> nat) world" where
  "demo_auto_released = demo_released\<lparr>
     events := [EscrowCreated demo_id alice bob 1000000 605800, EscrowFunded demo_id 1000000,
                EscrowCompleted demo_id 995000 5000, AutoReleaseExecuted demo_id] \<rparr>"

definition demo_nofee_disputed :: "(address \<Rightarrow> nat) world" where
  "demo_nofee_disputed = demo_disputed\<lparr>platformFeeBps := 0\<rparr>"

section \<open>Results of the single functions\<close>

lemma and_then_Inl [simp]: "and_then (Inl e) f = Inl e"
  by (simp add: and_then_def)

lemma and_then_Inr [simp]: "and_then (Inr x) f = f x"
  by (simp add: and_then_def)

lemma and_then_eq_Inr: "(and_then m f = Inr y) = (\<exists>x. m = Inr x \<and> f x = Inr y)"
  by (cases m) simp_all

lemma and_then_eq_Inl: "(and_then m f = Inl e) = (m = Inl e \<or> (\<exists>x. m = Inr x \<and> f x = Inl e))"
  by (cases m) simp_all

lemma unat_mul_256: "unat a * unat b < 2 ^ 256 \<Longrightarrow> unat (a * b) = unat a * unat b" for a b :: uint256
  using unat_mult_lem [of a b] by simp

lemma unat_add_256: "unat a + unat b < 2 ^ 256 \<Longrightarrow> unat (a + b) = unat a + unat b" for a b :: uint256
  using unat_add_lem [of a b] by simp

lemma checked_mul_Inr: "checked_mul a b = Inr c \<Longrightarrow> c = a * b \<and> unat c = unat a * unat b"
  unfolding checked_mul_def by (auto simp only: unat_mul_256 split: if_splits)

lemma checked_sub_Inr: "checked_sub a b = Inr c \<Longrightarrow> c = a - b \<and> unat b \<le> unat a \<and> unat c = unat a - unat b"
  by (auto simp: checked_sub_def unat_sub word_le_nat_alt split: if_splits)

lemma checked_add_Inr: "checked_add a b = Inr c \<Longrightarrow> c = a + b \<and> unat c = unat a + unat b"
  unfolding checked_add_def by (auto simp only: unat_add_256 split: if_splits)

lemma usdc_transfer_Inr:
  "usdc_transfer tok d a m w = Inr w' \<Longrightarrow>
     \<exists>t. w' = w\<lparr>usdc_state := t, calls := calls w @ [Transfer d a]\<rparr>"
  by (auto simp: usdc_transfer_def split: option.splits if_splits)

lemma usdc_transferFrom_Inr:
  "usdc_transferFrom tok s a m w = Inr w' \<Longrightarrow>
     \<exists>t. w' = w\<lparr>usdc_state := t, calls := calls w @ [TransferFrom s (self_address w) a]\<rparr>"
  by (auto simp: usdc_transferFrom_def split: option.splits if_splits)

lemma fee_splitI:
  assumes "checked_mul a bps = Inr product" and "checked_sub a (product div 10000) = Inr net"
  shows "fee_split a bps \<and> product = a * bps \<and> net = a - a * bps div 10000"
proof -
  from checked_mul_Inr [OF assms(1)]
  have p: "product = a * bps" "unat (a * bps) = unat a * unat bps" by auto
  from checked_sub_Inr [OF assms(2)]
  have n: "net = a - product div 10000" "unat (product div 10000) \<le> unat a"
    "unat net = unat a - unat (product div 10000)" by auto
  have "unat (a * bps div 10000) = unat a * unat bps div 10000"
    by (simp add: unat_div p(2))
  with p n show ?thesis unfolding fee_split_def by simp
qed

lemma share_splitI:
  assumes "checked_mul a p = Inr product" and "checked_sub a (product div 100) = Inr rest"
  shows "share_split a p \<and> product = a * p \<and> rest = a - a * p div 100"
proof -
  from checked_mul_Inr [OF assms(1)]
  have p: "product = a * p" "unat (a * p) = unat a * unat p" by auto
  from checked_sub_Inr [OF assms(2)]
  have n: "rest = a - product div 100" "unat (product div 100) \<le> unat a"
    "unat rest = unat a - unat (product div 100)" by auto
  have "unat (a * p div 100) = unat a * unat p div 100"
    by (simp add: unat_div p(2))
  with p n show ?thesis unfolding share_split_def by simp
qed

lemma fee_split_zero: "fee_split 0 bps"
  by (simp add: fee_split_def)

lemma completeEscrow_Inr:
  assumes "completeEscrow tok i w = Inr w'"
  shows "fee_split (amount (escrows w i)) (platformFeeBps w) \<and>
     (\<exists>t. w' = w\<lparr>usdc_state := t,
            calls := calls w @
              [Transfer (seller (escrows w i))
                 (amount (escrows w i) - amount (escrows w i) * platformFeeBps w div 10000),
               Transfer (feeCollector w) (amount (escrows w i) * platformFeeBps w div 10000)],
            escrows := (escrows w)(i := (escrows w i)\<lparr>status := COMPLETED\<rparr>),
            events := events w @
              [EscrowCompleted i
                 (amount (escrows w i) - amount (escrows w i) * platformFeeBps w div 10000)
                 (amount (escrows w i) * platformFeeBps w div 10000)]\<rparr>)"
  using assms
  apply (clarsimp simp: completeEscrow_def and_then_eq_Inr Let_def)
  apply (drule (1) fee_splitI)
  apply (drule usdc_transfer_Inr)+
  apply (clarsimp simp: emit_def set_status_def)
  apply (rule exI, rule refl)
  done

lemma nonReentrant_Inr:
  "nonReentrant body w = Inr w' \<Longrightarrow>
     \<not> reentrancy_entered w \<and>
     (\<exists>w1. body (w\<lparr>reentrancy_entered := True\<rparr>) = Inr w1 \<and> w' = w1\<lparr>reentrancy_entered := False\<rparr>)"
  by (auto simp: nonReentrant_def and_then_eq_Inr split: if_splits)

lemma onlyOwner_Inr:
  "onlyOwner e body w = Inr w' \<Longrightarrow> owner w = msg_sender e \<and> body w = Inr w'"
  by (auto simp: onlyOwner_def split: if_splits)

lemma pay_buyer_Inr:
  "pay_buyer tok i a w = Inr w' \<Longrightarrow>
     \<exists>t. w' = w\<lparr>usdc_state := t,
                 calls := calls w @ (if a > 0 then [Transfer (buyer (escrows w i)) a] else [])\<rparr>"
  apply (auto simp: pay_buyer_def split: if_splits dest!: usdc_transfer_Inr)
  apply (rule exI [of _ "usdc_state w"], simp)
  done

lemma pay_seller_Inr:
  assumes "pay_seller tok i a w = Inr w'"
  shows "fee_split a (platformFeeBps w) \<and>
     (\<exists>t. w' = w\<lparr>usdc_state := t,
            calls := calls w @
              (if a > 0 then [Transfer (seller (escrows w i)) (a - a * platformFeeBps w div 10000),
                              Transfer (feeCollector w) (a * platformFeeBps w div 10000)]
               else [])\<rparr>)"
proof (cases "a > 0")
  case True
  with assms show ?thesis
    apply (clarsimp simp: pay_seller_def and_then_eq_Inr Let_def)
    apply (drule (1) fee_splitI)
    apply (drule usdc_transfer_Inr)+
    apply clarsimp
    apply (rule exI, rule refl)
    done
next
  case False
  then have "a = 0" by (simp add: word_greater_zero_iff)
  with assms show ?thesis
    apply (clarsimp simp: pay_seller_def fee_split_zero)
    apply (rule exI [of _ "usdc_state w"], simp)
    done
qed

lemma fundEscrow_Inr:
  assumes "fundEscrow tok e i w = Inr w'"
  shows "\<not> reentrancy_entered w \<and> status (escrows w i) = CREATED \<and>
     msg_sender e = buyer (escrows w i) \<and>
     (\<exists>t. w' = w\<lparr>usdc_state := t,
            calls := calls w @ [TransferFrom (msg_sender e) (self_address w) (amount (escrows w i))],
            escrows := (escrows w)(i := (escrows w i)\<lparr>status := FUNDED\<rparr>),
            events := events w @ [EscrowFunded i (amount (escrows w i))],
            reentrancy_entered := False\<rparr>)"
  using assms
  apply (clarsimp simp: fundEscrow_def and_then_eq_Inr dest!: nonReentrant_Inr split: if_splits)
  apply (drule usdc_transferFrom_Inr)
  apply (clarsimp simp: emit_def set_status_def)
  apply (rule exI, rule refl)
  done

lemma releaseFunds_Inr:
  assumes "releaseFunds tok e i w = Inr w'"
  shows "\<not> reentrancy_entered w \<and> status (escrows w i) = FUNDED \<and>
     msg_sender e = buyer (escrows w i) \<and> \<not> disputeRaised (escrows w i) \<and>
     fee_split (amount (escrows w i)) (platformFeeBps w) \<and>
     (\<exists>t. w' = w\<lparr>usdc_state := t,
            calls := calls w @
              [Transfer (seller (escrows w i))
                 (amount (escrows w i) - amount (escrows w i) * platformFeeBps w div 10000),
               Transfer (feeCollector w) (amount (escrows w i) * platformFeeBps w div 10000)],
            escrows := (escrows w)(i := (escrows w i)\<lparr>status := COMPLETED\<rparr>),
            events := events w @
              [EscrowCompleted i
                 (amount (escrows w i) - amount (escrows w i) * platformFeeBps w div 10000)
                 (amount (escrows w i) * platformFeeBps w div 10000)],
            reentrancy_entered := False\<rparr>)"
  using assms
  apply (clarsimp simp: releaseFunds_def dest!: nonReentrant_Inr split: if_splits)
  apply (drule completeEscrow_Inr)
  apply clarsimp
  apply (rule exI, rule refl)
  done

lemma autoRelease_Inr:
  assumes "autoRelease tok e i w = Inr w'"
  shows "\<not> reentrancy_entered w \<and> status (escrows w i) = FUNDED \<and>
     autoReleaseTime (escrows w i) \<le> block_timestamp e \<and> \<not> disputeRaised (escrows w i) \<and>
     fee_split (amount (escrows w i)) (platformFeeBps w) \<and>
     (\<exists>t. w' = w\<lparr>usdc_state := t,
            calls := calls w @
              [Transfer (seller (escrows w i))
                 (amount (escrows w i) - amount (escrows w i) * platformFeeBps w div 10000),
               Transfer (feeCollector w) (amount (escrows w i) * platformFeeBps w div 10000)],
            escrows := (escrows w)(i := (escrows w i)\<lparr>status := COMPLETED\<rparr>),
            events := events w @
              [EscrowCompleted i
                 (amount (escrows w i) - amount (escrows w i) * platformFeeBps w div 10000)
                 (amount (escrows w i) * platformFeeBps w div 10000),
               AutoReleaseExecuted i],
            reentrancy_entered := False\<rparr>)"
  using assms
  apply (clarsimp simp: autoRelease_def and_then_eq_Inr dest!: nonReentrant_Inr split: if_splits)
  apply (drule completeEscrow_Inr)
  apply (clarsimp simp: emit_def)
  apply (rule exI, rule refl)
  done

lemma raiseDispute_Inr:
  assumes "raiseDispute e i w = Inr w'"
  shows "status (escrows w i) = FUNDED \<and>
     (msg_sender e = buyer (escrows w i) \<or> msg_sender e = seller (escrows w i)) \<and>
     \<not> disputeRaised (escrows w i) \<and>
     w' = w\<lparr>escrows := (escrows w)(i := (escrows w i)
               \<lparr>status := DISPUTED, disputeRaised := True, disputeRaisedBy := msg_sender e\<rparr>),
            events := events w @ [DisputeRaised i (msg_sender e)]\<rparr>"
  using assms
  by (auto simp: raiseDispute_def emit_def split: if_splits)

lemma resolveDispute_Inr:
  assumes "resolveDispute tok e i p w = Inr w'"
  shows "owner w = msg_sender e \<and> \<not> reentrancy_entered w \<and> status (escrows w i) = DISPUTED \<and>
     p \<le> 100 \<and>
     share_split (amount (escrows w i)) p \<and>
     fee_split (amount (escrows w i) - amount (escrows w i) * p div 100) (platformFeeBps w) \<and>
     (\<exists>t. w' = w\<lparr>usdc_state := t,
            calls := calls w
              @ (if amount (escrows w i) * p div 100 > 0
                 then [Transfer (buyer (escrows w i)) (amount (escrows w i) * p div 100)] else [])
              @ (if amount (escrows w i) - amount (escrows w i) * p div 100 > 0
                 then [Transfer (seller (escrows w i))
                         ((amount (escrows w i) - amount (escrows w i) * p div 100)
                          - (amount (escrows w i) - amount (escrows w i) * p div 100)
                            * platformFeeBps w div 10000),
                       Transfer (feeCollector w)
                         ((amount (escrows w i) - amount (escrows w i) * p div 100)
                          * platformFeeBps w div 10000)]
                 else []),
            escrows := (escrows w)(i := (escrows w i)\<lparr>status := COMPLETED\<rparr>),
            events := events w @
              [DisputeResolved i (amount (escrows w i) * p div 100)
                 (amount (escrows w i) - amount (escrows w i) * p div 100)],
            reentrancy_entered := False\<rparr>)"
  using assms
  apply (clarsimp simp: resolveDispute_def and_then_eq_Inr Let_def
           dest!: onlyOwner_Inr nonReentrant_Inr split: if_splits)
  apply (drule (1) share_splitI)
  apply (drule pay_buyer_Inr)
  apply clarsimp
  apply (drule pay_seller_Inr)
  apply (clarsimp simp: emit_def set_status_def)
  apply (intro conjI impI; rule exI, rule refl)
  done

lemma createEscrow_Inr:
  assumes "createEscrow kec e b s a w = Inr (i, w')"
  shows "b \<noteq> 0 \<and> s \<noteq> 0 \<and> b \<noteq> s \<and> a > 0 \<and>
     i = kec b s a (block_timestamp e) (block_number e) \<and> buyer (escrows w i) = 0 \<and>
     unat (block_timestamp e + 604800) = unat (block_timestamp e) + 604800 \<and>
     w' = w\<lparr>escrows := (escrows w)(i :=
                 \<lparr> buyer = b, seller = s, amount = a, createdAt = block_timestamp e,
                   autoReleaseTime = block_timestamp e + 604800, status = CREATED,
                   disputeRaised = False, disputeRaisedBy = 0 \<rparr>),
               events := events w @ [EscrowCreated i b s a (block_timestamp e + 604800)]\<rparr>"
  using assms
  apply (clarsimp simp: createEscrow_def and_then_eq_Inr Let_def emit_def AUTO_RELEASE_PERIOD_def
           split: if_splits)
  apply (drule checked_add_Inr)
  apply clarsimp
  done

lemma transition_refl: "transition sender r r"
  by (simp add: transition_def)

lemma createEscrow_escrows:
  assumes "createEscrow kec e b s a w = Inr (j, w')"
  shows "buyer (escrows w j) = 0 \<and>
     unat (block_timestamp e + 604800) = unat (block_timestamp e) + 604800 \<and>
     escrows w' = (escrows w)(j :=
                 \<lparr> buyer = b, seller = s, amount = a, createdAt = block_timestamp e,
                   autoReleaseTime = block_timestamp e + 604800, status = CREATED,
                   disputeRaised = False, disputeRaisedBy = 0 \<rparr>) \<and>
     b \<noteq> 0 \<and> s \<noteq> 0 \<and> b \<noteq> s \<and> a > 0"
  using createEscrow_Inr [OF assms] by clarsimp

lemma fundEscrow_escrows:
  assumes "fundEscrow tok e j w = Inr w'"
  shows "status (escrows w j) = CREATED \<and> msg_sender e = buyer (escrows w j) \<and>
     escrows w' = (escrows w)(j := (escrows w j)\<lparr>status := FUNDED\<rparr>)"
  using fundEscrow_Inr [OF assms] by clarsimp

lemma releaseFunds_escrows:
  assumes "releaseFunds tok e j w = Inr w'"
  shows "status (escrows w j) = FUNDED \<and> \<not> disputeRaised (escrows w j) \<and>
     escrows w' = (escrows w)(j := (escrows w j)\<lparr>status := COMPLETED\<rparr>)"
  using releaseFunds_Inr [OF assms] by clarsimp

lemma autoRelease_escrows:
  assumes "autoRelease tok e j w = Inr w'"
  shows "status (escrows w j) = FUNDED \<and> \<not> disputeRaised (escrows w j) \<and>
     escrows w' = (escrows w)(j := (escrows w j)\<lparr>status := COMPLETED\<rparr>)"
  using autoRelease_Inr [OF assms] by clarsimp

lemma raiseDispute_escrows:
  assumes "raiseDispute e j w = Inr w'"
  shows "status (escrows w j) = FUNDED \<and> \<not> disputeRaised (escrows w j) \<and>
     escrows w' = (escrows w)(j := (escrows w j)
        \<lparr>status := DISPUTED, disputeRaised := True, disputeRaisedBy := msg_sender e\<rparr>)"
  using raiseDispute_Inr [OF assms] by clarsimp

lemma resolveDispute_escrows:
  assumes "resolveDispute tok e j p w = Inr w'"
  shows "status (escrows w j) = DISPUTED \<and>
     escrows w' = (escrows w)(j := (escrows w j)\<lparr>status := COMPLETED\<rparr>)"
  using resolveDispute_Inr [OF assms] by clarsimp

lemma admin_escrows:
  "updatePlatformFee e f w = Inr w' \<Longrightarrow> escrows w' = escrows w"
  "updateFeeCollector e c w = Inr w' \<Longrightarrow> escrows w' = escrows w"
  "transferOwnership e n w = Inr w' \<Longrightarrow> escrows w' = escrows w"
  "renounceOwnership e w = Inr w' \<Longrightarrow> escrows w' = escrows w"
  by (auto simp: updatePlatformFee_def updateFeeCollector_def transferOwnership_def
        renounceOwnership_def dest!: onlyOwner_Inr split: if_splits)


lemma exec_transition:
  assumes "exec tok kec e t w = Inr w'"
  shows "transition (msg_sender e) (escrows w i) (escrows w' i)"
proof (cases t)
  case (CreateEscrow b s a)
  with assms obtain j where "createEscrow kec e b s a w = Inr (j, w')"
    by (auto simp: and_then_eq_Inr)
  from createEscrow_escrows [OF this] show ?thesis
    by (cases "i = j") (simp_all add: transition_def)
next
  case (FundEscrow j)
  with assms have "fundEscrow tok e j w = Inr w'" by simp
  from fundEscrow_escrows [OF this] show ?thesis
    by (cases "i = j") (simp_all add: transition_def)
next
  case (ReleaseFunds j)
  with assms have "releaseFunds tok e j w = Inr w'" by simp
  from releaseFunds_escrows [OF this] show ?thesis
    by (cases "i = j") (simp_all add: transition_def)
next
  case (AutoRelease j)
  with assms have "autoRelease tok e j w = Inr w'" by simp
  from autoRelease_escrows [OF this] show ?thesis
    by (cases "i = j") (simp_all add: transition_def)
next
  case (RaiseDispute j)
  with assms have "raiseDispute e j w = Inr w'" by simp
  from raiseDispute_escrows [OF this] show ?thesis
    by (cases "i = j") (simp_all add: transition_def)
next
  case (ResolveDispute j p)
  with assms have "resolveDispute tok e j p w = Inr w'" by simp
  from resolveDispute_escrows [OF this] show ?thesis
    by (cases "i = j") (simp_all add: transition_def)
next
  case (UpdatePlatformFee f)
  with assms show ?thesis by (simp add: admin_escrows transition_refl)
next
  case (UpdateFeeCollector c)
  with assms show ?thesis by (simp add: admin_escrows transition_refl)
next
  case (TransferOwnership n)
  with assms show ?thesis by (simp add: admin_escrows transition_refl)
next
  case RenounceOwnership
  with assms show ?thesis by (simp add: admin_escrows transition_refl)
qed


lemma transition_good:
  assumes "transition sender old new" and "sender \<noteq> 0" and "good old"
  shows "good new"
proof -
  consider (same) "new = old"
    | (create) "buyer old = 0" "buyer new \<noteq> 0" "seller new \<noteq> 0" "buyer new \<noteq> seller new"
        "amount new > 0" "status new = CREATED" "\<not> disputeRaised new"
        "unat (autoReleaseTime new) = unat (createdAt new) + 604800"
    | (fund) "status old = CREATED" "sender = buyer old" "new = old\<lparr>status := FUNDED\<rparr>"
    | (release) "status old = FUNDED" "\<not> disputeRaised old" "new = old\<lparr>status := COMPLETED\<rparr>"
    | (dispute) "status old = FUNDED" "\<not> disputeRaised old"
        "new = old\<lparr>status := DISPUTED, disputeRaised := True, disputeRaisedBy := sender\<rparr>"
    | (resolve) "status old = DISPUTED" "new = old\<lparr>status := COMPLETED\<rparr>"
    using assms(1) unfolding transition_def by blast
  then show ?thesis
  proof cases
    case same
    with assms(3) show ?thesis by simp
  next
    case create
    then show ?thesis by (simp add: good_def)
  next
    case fund
    with assms(2,3) show ?thesis by (simp add: good_def)
  next
    case release
    with assms(3) show ?thesis by (auto simp: good_def)
  next
    case dispute
    with assms(3) show ?thesis by (auto simp: good_def)
  next
    case resolve
    with assms(3) show ?thesis by (auto simp: good_def)
  qed
qed


lemma good_zero: "good zero_escrow"
  by (simp add: good_def zero_escrow_def)

lemma constructor_Inr:
  "constructor e u f self t = Inr w \<Longrightarrow>
     u \<noteq> 0 \<and> f \<noteq> 0 \<and>
     w = \<lparr> self_address = self, USDC = u, escrows = (\<lambda>_. zero_escrow),
           platformFeeBps = 50, feeCollector = f, owner = msg_sender e,
           reentrancy_entered = False, usdc_state = t, calls = [], events = [] \<rparr>"
  by (simp add: constructor_def split: if_splits)

lemma reachable_good: "reachable tok kec w \<Longrightarrow> good (escrows w i)"
proof (induction arbitrary: i rule: reachable.induct)
  case (reach_init e usdcAddress feeCollector0 self t w)
  from constructor_Inr [OF reach_init(1)] show ?case
    by (simp add: good_zero)
next
  case (reach_tx w e t w')
  from exec_transition [OF reach_tx(3)] have "transition (msg_sender e) (escrows w i) (escrows w' i)" .
  then show ?case
    using reach_tx(2) reach_tx.IH by (rule transition_good)
next
  case (reach_token w t)
  then show ?case by simp
qed

lemma admin_frame:
  "updatePlatformFee e f w = Inr w' \<Longrightarrow> w' = w\<lparr>platformFeeBps := f\<rparr> \<and> f \<le> 1000"
  "updateFeeCollector e c w = Inr w' \<Longrightarrow> w' = w\<lparr>feeCollector := c\<rparr> \<and> c \<noteq> 0"
  "transferOwnership e n w = Inr w' \<Longrightarrow> w' = w\<lparr>owner := n\<rparr>"
  "renounceOwnership e w = Inr w' \<Longrightarrow> w' = w\<lparr>owner := 0\<rparr>"
  by (auto simp: updatePlatformFee_def updateFeeCollector_def transferOwnership_def
        renounceOwnership_def dest!: onlyOwner_Inr split: if_splits)

lemma exec_config_ok:
  assumes "exec tok kec e t w = Inr w'" and "config_ok w"
  shows "config_ok w'"
proof (cases t)
  case (CreateEscrow b s a)
  with assms obtain j where "createEscrow kec e b s a w = Inr (j, w')"
    by (auto simp: and_then_eq_Inr)
  from createEscrow_Inr [OF this] assms(2) show ?thesis
    by (clarsimp simp: config_ok_def)
next
  case (FundEscrow j)
  with assms have "fundEscrow tok e j w = Inr w'" by simp
  from fundEscrow_Inr [OF this] assms(2) show ?thesis
    by (clarsimp simp: config_ok_def)
next
  case (ReleaseFunds j)
  with assms have "releaseFunds tok e j w = Inr w'" by simp
  from releaseFunds_Inr [OF this] assms(2) show ?thesis
    by (clarsimp simp: config_ok_def)
next
  case (AutoRelease j)
  with assms have "autoRelease tok e j w = Inr w'" by simp
  from autoRelease_Inr [OF this] assms(2) show ?thesis
    by (clarsimp simp: config_ok_def)
next
  case (RaiseDispute j)
  with assms have "raiseDispute e j w = Inr w'" by simp
  from raiseDispute_Inr [OF this] assms(2) show ?thesis
    by (clarsimp simp: config_ok_def)
next
  case (ResolveDispute j p)
  with assms have "resolveDispute tok e j p w = Inr w'" by simp
  from resolveDispute_Inr [OF this] assms(2) show ?thesis
    by (clarsimp simp: config_ok_def)
next
  case (UpdatePlatformFee f)
  with assms show ?thesis by (clarsimp simp: config_ok_def dest!: admin_frame)
next
  case (UpdateFeeCollector c)
  with assms show ?thesis by (clarsimp simp: config_ok_def dest!: admin_frame)
next
  case (TransferOwnership n)
  with assms show ?thesis by (clarsimp simp: config_ok_def dest!: admin_frame)
next
  case RenounceOwnership
  with assms show ?thesis by (clarsimp simp: config_ok_def dest!: admin_frame)
qed

lemma reachable_config_ok: "reachable tok kec w \<Longrightarrow> config_ok w"
proof (induction rule: reachable.induct)
  case (reach_init e usdcAddress feeCollector0 self t w)
  from constructor_Inr [OF reach_init(1)] show ?case
    by (simp add: config_ok_def)
next
  case (reach_tx w e t w')
  then show ?case using exec_config_ok by blast
next
  case (reach_token w t)
  then show ?case by (simp add: config_ok_def)
qed


lemma created_link_frame:
  "buyer (escrows w' i) = buyer (escrows w i) \<Longrightarrow>
   list_ex (is_created i) (events w') = list_ex (is_created i) (events w) \<Longrightarrow>
   created_link w i \<Longrightarrow> created_link w' i"
  by (simp add: created_link_def)

lemma exec_created_link:
  assumes "exec tok kec e t w = Inr w'" and "created_link w i"
  shows "created_link w' i"
proof (cases t)
  case (CreateEscrow b s a)
  with assms obtain j where "createEscrow kec e b s a w = Inr (j, w')"
    by (auto simp: and_then_eq_Inr)
  from createEscrow_Inr [OF this]
  have *: "b \<noteq> 0" "buyer (escrows w j) = 0"
    "escrows w' = (escrows w)(j := \<lparr> buyer = b, seller = s, amount = a,
        createdAt = block_timestamp e, autoReleaseTime = block_timestamp e + 604800,
        status = CREATED, disputeRaised = False, disputeRaisedBy = 0 \<rparr>)"
    "events w' = events w @ [EscrowCreated j b s a (block_timestamp e + 604800)]"
    by (elim conjE, simp)+
  show ?thesis
  proof (cases "i = j")
    case True
    with * show ?thesis by (simp add: created_link_def)
  next
    case False
    with * have "buyer (escrows w' i) = buyer (escrows w i)"
      "list_ex (is_created i) (events w') = list_ex (is_created i) (events w)"
      by simp_all
    then show ?thesis using assms(2) by (rule created_link_frame)
  qed
next
  case (FundEscrow j)
  with assms have "fundEscrow tok e j w = Inr w'" by simp
  from fundEscrow_Inr [OF this]
  have "buyer (escrows w' i) = buyer (escrows w i)"
    "list_ex (is_created i) (events w') = list_ex (is_created i) (events w)"
    by (cases "i = j"; clarsimp)+
  then show ?thesis using assms(2) by (rule created_link_frame)
next
  case (ReleaseFunds j)
  with assms have "releaseFunds tok e j w = Inr w'" by simp
  from releaseFunds_Inr [OF this]
  have "buyer (escrows w' i) = buyer (escrows w i)"
    "list_ex (is_created i) (events w') = list_ex (is_created i) (events w)"
    by (cases "i = j"; clarsimp)+
  then show ?thesis using assms(2) by (rule created_link_frame)
next
  case (AutoRelease j)
  with assms have "autoRelease tok e j w = Inr w'" by simp
  from autoRelease_Inr [OF this]
  have "buyer (escrows w' i) = buyer (escrows w i)"
    "list_ex (is_created i) (events w') = list_ex (is_created i) (events w)"
    by (cases "i = j"; clarsimp)+
  then show ?thesis using assms(2) by (rule created_link_frame)
next
  case (RaiseDispute j)
  with assms have "raiseDispute e j w = Inr w'" by simp
  from raiseDispute_Inr [OF this]
  have "buyer (escrows w' i) = buyer (escrows w i)"
    "list_ex (is_created i) (events w') = list_ex (is_created i) (events w)"
    by (cases "i = j"; clarsimp)+
  then show ?thesis using assms(2) by (rule created_link_frame)
next
  case (ResolveDispute j p)
  with assms have "resolveDispute tok e j p w = Inr w'" by simp
  from resolveDispute_Inr [OF this]
  have "buyer (escrows w' i) = buyer (escrows w i)"
    "list_ex (is_created i) (events w') = list_ex (is_created i) (events w)"
    by (cases "i = j"; clarsimp)+
  then show ?thesis using assms(2) by (rule created_link_frame)
next
  case (UpdatePlatformFee f)
  with assms(1) have "w' = w\<lparr>platformFeeBps := f\<rparr>" by (simp add: admin_frame)
  with assms(2) show ?thesis by (simp add: created_link_def)
next
  case (UpdateFeeCollector c)
  with assms(1) have "w' = w\<lparr>feeCollector := c\<rparr>" by (simp add: admin_frame)
  with assms(2) show ?thesis by (simp add: created_link_def)
next
  case (TransferOwnership n)
  with assms(1) have "w' = w\<lparr>owner := n\<rparr>" by (simp add: admin_frame)
  with assms(2) show ?thesis by (simp add: created_link_def)
next
  case RenounceOwnership
  with assms(1) have "w' = w\<lparr>owner := 0\<rparr>" by (simp add: admin_frame)
  with assms(2) show ?thesis by (simp add: created_link_def)
qed

lemma reachable_created_link: "reachable tok kec w \<Longrightarrow> created_link w i"
proof (induction rule: reachable.induct)
  case (reach_init e usdcAddress feeCollector0 self t w)
  from constructor_Inr [OF reach_init(1)] show ?case
    by (simp add: created_link_def zero_escrow_def)
next
  case (reach_tx w e t w')
  then show ?case using exec_created_link by blast
next
  case (reach_token w t)
  then show ?case by (simp add: created_link_def)
qed

lemma run_reachable:
  "reachable tok kec w \<Longrightarrow> \<forall>(e, t) \<in> set txs. msg_sender e \<noteq> 0 \<Longrightarrow>
     reachable tok kec (run tok kec txs w)"
proof (induction txs arbitrary: w)
  case Nil
  then show ?case by simp
next
  case (Cons et txs)
  obtain e t where et: "et = (e, t)" by (cases et)
  show ?case
  proof (cases "exec tok kec e t w")
    case (Inl err)
    with Cons et show ?thesis by simp
  next
    case (Inr w')
    with Cons.prems et have "reachable tok kec w'"
      by (auto intro: reach_tx)
    with Cons et Inr show ?thesis by simp
  qed
qed

lemma new_calls_append: "calls w' = calls w @ cs \<Longrightarrow> new_calls w w' = cs"
  by (simp add: new_calls_def)

lemma word_not_pos_unat: "\<not> 0 < x \<Longrightarrow> unat x = 0" for x :: uint256
  by (simp add: word_greater_zero_iff)

lemma word_zero_not_pos: "a = 0 \<longleftrightarrow> \<not> 0 < a" for a :: uint256
  by (simp add: word_greater_zero_iff)

section \<open>The concrete deployment, step by step\<close>

lemmas demo_defs = alice_def bob_def carol_def arbiter_def escrow_contract_def usdc_contract_def
  demo_token_def demo_kec_def demo_env_def demo_id_def demo_escrow_def demo_deployed_def
  demo_created_def demo_funded_def

lemma demo_constructor:
  "constructor (demo_env arbiter 900) usdc_contract carol escrow_contract ((\<lambda>_. 0)(alice := 5000000))
     = Inr demo_deployed"
  by (simp add: constructor_def demo_defs)

lemma demo_create:
  "createEscrow demo_kec (demo_env alice 1000) alice bob 1000000 demo_deployed
     = Inr (demo_id, demo_created)"
  by (simp add: createEscrow_def checked_add_def AUTO_RELEASE_PERIOD_def emit_def zero_escrow_def demo_defs)

lemma demo_fund:
  "fundEscrow demo_token (demo_env alice 1001) demo_id demo_created = Inr demo_funded"
  by (simp add: fundEscrow_def nonReentrant_def usdc_transferFrom_def emit_def set_status_def demo_defs)


lemmas demo_defs2 = demo_defs demo_released_def demo_disputed_def demo_resolved_def

lemmas op_defs = nonReentrant_def onlyOwner_def usdc_transfer_def usdc_transferFrom_def
  emit_def set_status_def checked_add_def checked_sub_def checked_mul_def completeEscrow_def
  pay_buyer_def pay_seller_def Let_def

lemma demo_release:
  "releaseFunds demo_token (demo_env alice 2000) demo_id demo_funded = Inr demo_released"
  by (simp add: releaseFunds_def op_defs demo_defs2)

lemma demo_dispute:
  "raiseDispute (demo_env bob 1002) demo_id demo_funded = Inr demo_disputed"
  by (simp add: raiseDispute_def op_defs demo_defs2)

lemma demo_resolve:
  "resolveDispute demo_token (demo_env arbiter 3000) demo_id 30 demo_disputed = Inr demo_resolved"
  by (simp add: resolveDispute_def op_defs demo_defs2)



section \<open>Invariants along sequences of transactions\<close>

lemma transition_frozen:
  assumes "transition sender old new" and "buyer old \<noteq> 0"
  shows "buyer new = buyer old \<and> seller new = seller old \<and> amount new = amount old \<and>
     createdAt new = createdAt old \<and> autoReleaseTime new = autoReleaseTime old"
  using assms unfolding transition_def by (elim disjE conjE) simp_all

lemma transition_dispute_kept:
  assumes "transition sender old new" and "good old" and "sender \<noteq> 0" and "disputeRaised old"
  shows "disputeRaised new"
  using assms unfolding transition_def good_def by (elim disjE conjE) auto

lemma transition_rank:
  assumes "transition sender old new" and "good old"
  shows "status_rank (status old) \<le> status_rank (status new) \<and>
     (status old = COMPLETED \<or> status old = REFUNDED \<or> status old = CANCELLED
        \<longrightarrow> status new = status old)"
  using assms unfolding transition_def good_def by (elim disjE conjE) auto

lemma run_step:
  assumes "reachable tok kec w" and "\<forall>(e, t) \<in> set txs. msg_sender e \<noteq> 0"
    and step: "\<And>e t v v'. reachable tok kec v \<Longrightarrow> msg_sender e \<noteq> 0 \<Longrightarrow>
        exec tok kec e t v = Inr v' \<Longrightarrow> P v \<Longrightarrow> P v'"
    and "P w"
  shows "P (run tok kec txs w)"
  using assms(1,2,4)
proof (induction txs arbitrary: w)
  case Nil
  then show ?case by simp
next
  case (Cons et txs)
  obtain e t where et: "et = (e, t)" by (cases et)
  show ?case
  proof (cases "exec tok kec e t w")
    case (Inl err)
    with Cons et show ?thesis by simp
  next
    case (Inr w')
    from Cons.prems et have s: "msg_sender e \<noteq> 0" by simp
    from Cons.prems(1) s Inr have r: "reachable tok kec w'" by (rule reach_tx)
    from step [OF Cons.prems(1) s Inr Cons.prems(3)] have "P w'" .
    with Cons.IH [OF r] Cons.prems(2) et Inr show ?thesis by simp
  qed
qed

lemma run_frozen:
  "buyer (escrows w i) \<noteq> 0 \<Longrightarrow>
     buyer (escrows (run tok kec txs w) i) = buyer (escrows w i) \<and>
     createdAt (escrows (run tok kec txs w) i) = createdAt (escrows w i) \<and>
     autoReleaseTime (escrows (run tok kec txs w) i) = autoReleaseTime (escrows w i)"
proof (induction txs arbitrary: w)
  case Nil
  then show ?case by simp
next
  case (Cons et txs)
  obtain e t where et: "et = (e, t)" by (cases et)
  show ?case
  proof (cases "exec tok kec e t w")
    case (Inl err)
    with Cons et show ?thesis by simp
  next
    case (Inr w')
    from transition_frozen [OF exec_transition [OF Inr] Cons.prems]
    have f: "buyer (escrows w' i) = buyer (escrows w i)"
      "createdAt (escrows w' i) = createdAt (escrows w i)"
      "autoReleaseTime (escrows w' i) = autoReleaseTime (escrows w i)" by simp_all
    with Cons.prems have "buyer (escrows w' i) \<noteq> 0" by simp
    from Cons.IH [OF this] f et Inr show ?thesis by simp
  qed
qed

lemma run_dispute_kept:
  assumes "reachable tok kec w" and "\<forall>(e, t) \<in> set txs. msg_sender e \<noteq> 0"
    and "disputeRaised (escrows w i)"
  shows "disputeRaised (escrows (run tok kec txs w) i)"
proof (rule run_step [OF assms(1,2), where P = "\<lambda>v. disputeRaised (escrows v i)"])
  fix e t v v'
  assume "reachable tok kec v" "msg_sender e \<noteq> 0" "exec tok kec e t v = Inr v'"
    "disputeRaised (escrows v i)"
  then show "disputeRaised (escrows v' i)"
    using transition_dispute_kept [OF exec_transition reachable_good] by blast
next
  show "disputeRaised (escrows w i)" by (rule assms(3))
qed

lemma run_rank:
  assumes "reachable tok kec w" and "\<forall>(e, t) \<in> set txs. msg_sender e \<noteq> 0"
  shows "status_rank (status (escrows w i)) \<le> status_rank (status (escrows (run tok kec txs w) i)) \<and>
     (status (escrows w i) = COMPLETED \<or> status (escrows w i) = REFUNDED \<or>
      status (escrows w i) = CANCELLED
        \<longrightarrow> status (escrows (run tok kec txs w) i) = status (escrows w i))"
proof (rule run_step [OF assms(1,2), where P = "\<lambda>v.
    status_rank (status (escrows w i)) \<le> status_rank (status (escrows v i)) \<and>
     (status (escrows w i) = COMPLETED \<or> status (escrows w i) = REFUNDED \<or>
      status (escrows w i) = CANCELLED \<longrightarrow> status (escrows v i) = status (escrows w i))"])
  fix e t v v'
  assume r: "reachable tok kec v" and x: "exec tok kec e t v = Inr v'"
    and ih: "status_rank (status (escrows w i)) \<le> status_rank (status (escrows v i)) \<and>
     (status (escrows w i) = COMPLETED \<or> status (escrows w i) = REFUNDED \<or>
      status (escrows w i) = CANCELLED \<longrightarrow> status (escrows v i) = status (escrows w i))"
  from transition_rank [OF exec_transition [OF x] reachable_good [OF r], of i] ih
  show "status_rank (status (escrows w i)) \<le> status_rank (status (escrows v' i)) \<and>
     (status (escrows w i) = COMPLETED \<or> status (escrows w i) = REFUNDED \<or>
      status (escrows w i) = CANCELLED \<longrightarrow> status (escrows v' i) = status (escrows w i))"
    by auto
next
  show "status_rank (status (escrows w i)) \<le> status_rank (status (escrows w i)) \<and>
     (status (escrows w i) = COMPLETED \<or> status (escrows w i) = REFUNDED \<or>
      status (escrows w i) = CANCELLED \<longrightarrow> status (escrows w i) = status (escrows w i))"
    by simp
qed

lemma usdc_transfer_Inl:
  "usdc_transfer tok d a m w = Inl err \<Longrightarrow> err = CallReverted \<or> err = Revert m"
  by (auto simp: usdc_transfer_def split: option.splits if_splits)

lemma checked_Inl:
  "checked_mul a b = Inl err \<Longrightarrow> err = Panic"
  "checked_sub a b = Inl err \<Longrightarrow> err = Panic"
  by (auto simp: checked_mul_def checked_sub_def split: if_splits)

lemma completeEscrow_Inl:
  "completeEscrow tok i w = Inl err \<Longrightarrow>
     err = Panic \<or> err = CallReverted \<or> err = Revert ''Seller transfer failed'' \<or>
     err = Revert ''Fee transfer failed''"
  by (auto simp: completeEscrow_def and_then_eq_Inl Let_def
        dest!: usdc_transfer_Inl checked_Inl)

lemma demo_reachable:
  "reachable demo_token demo_kec demo_deployed"
  "reachable demo_token demo_kec demo_created"
  "reachable demo_token demo_kec demo_funded"
  "reachable demo_token demo_kec demo_disputed"
proof -
  have a: "msg_sender (demo_env arbiter 900) \<noteq> 0" "msg_sender (demo_env alice 1000) \<noteq> 0"
    "msg_sender (demo_env alice 1001) \<noteq> 0" "msg_sender (demo_env bob 1002) \<noteq> 0"
    by (simp_all add: demo_env_def alice_def bob_def arbiter_def)
  show 0: "reachable demo_token demo_kec demo_deployed"
    using demo_constructor a(1) by (rule reach_init)
  have "exec demo_token demo_kec (demo_env alice 1000) (CreateEscrow alice bob 1000000) demo_deployed
      = Inr demo_created"
    by (simp add: demo_create)
  with 0 a(2) show 1: "reachable demo_token demo_kec demo_created" by (rule reach_tx)
  have "exec demo_token demo_kec (demo_env alice 1001) (FundEscrow demo_id) demo_created
      = Inr demo_funded"
    by (simp add: demo_fund)
  with 1 a(3) show 2: "reachable demo_token demo_kec demo_funded" by (rule reach_tx)
  have "exec demo_token demo_kec (demo_env bob 1002) (RaiseDispute demo_id) demo_funded
      = Inr demo_disputed"
    by (simp add: demo_dispute)
  with 2 a(4) show "reachable demo_token demo_kec demo_disputed" by (rule reach_tx)
qed

lemma demo_run:
  "run demo_token demo_kec
     [(demo_env alice 1000, CreateEscrow alice bob 1000000),
      (demo_env alice 1001, FundEscrow demo_id),
      (demo_env alice 2000, ReleaseFunds demo_id)] demo_deployed = demo_released"
  "run demo_token demo_kec [(demo_env arbiter 3000, ResolveDispute demo_id 30)] demo_disputed
     = demo_resolved"
  by (simp_all add: demo_create demo_fund demo_release demo_resolve)

lemma demo_senders:
  "msg_sender (demo_env alice ts) \<noteq> 0" "msg_sender (demo_env bob ts) \<noteq> 0"
  "msg_sender (demo_env arbiter ts) \<noteq> 0"
  by (simp_all add: demo_env_def alice_def bob_def arbiter_def)

lemma demo_status:
  "status (escrows demo_deployed demo_id) = CREATED"
  "status (escrows demo_created demo_id) = CREATED"
  "status (escrows demo_funded demo_id) = FUNDED"
  "status (escrows demo_released demo_id) = COMPLETED"
  "status (escrows demo_disputed demo_id) = DISPUTED"
  "status (escrows demo_resolved demo_id) = COMPLETED"
  by (simp_all add: demo_deployed_def demo_created_def demo_funded_def demo_released_def
       demo_disputed_def demo_resolved_def demo_escrow_def zero_escrow_def)

lemma demo_flags:
  "\<not> disputeRaised (escrows demo_funded demo_id)"
  "disputeRaised (escrows demo_disputed demo_id)"
  "disputeRaised (escrows demo_resolved demo_id)"
  by (simp_all add: demo_funded_def demo_disputed_def demo_resolved_def demo_escrow_def)

lemma fee_le_amount:
  fixes a bps :: uint256
  assumes "bps \<le> 1000" and "unat a * unat bps < 2 ^ 256"
  shows "unat (a * bps div 10000) \<le> unat a"
proof -
  from assms(1) have b: "unat bps \<le> 1000" by (simp add: word_le_nat_alt)
  have "unat (a * bps div 10000) = unat a * unat bps div 10000"
    by (simp add: unat_div unat_mul_256 [OF assms(2)])
  also have "\<dots> \<le> unat a * 10000 div 10000"
    using b by (intro div_le_mono mult_le_mono) simp_all
  finally show ?thesis by simp
qed

lemma completeEscrow_succeeds:
  assumes "platformFeeBps w \<le> 1000"
    and "unat (amount (escrows w i)) * unat (platformFeeBps w) < 2 ^ 256"
    and "transfer tok (self_address w) (seller (escrows w i))
           (amount (escrows w i) - amount (escrows w i) * platformFeeBps w div 10000)
           (usdc_state w) = Some (True, t1)"
    and "transfer tok (self_address w) (feeCollector w)
           (amount (escrows w i) * platformFeeBps w div 10000) t1 = Some (True, t2)"
  shows "\<exists>w'. completeEscrow tok i w = Inr w' \<and> status (escrows w' i) = COMPLETED"
proof -
  have m: "checked_mul (amount (escrows w i)) (platformFeeBps w)
      = Inr (amount (escrows w i) * platformFeeBps w)"
    unfolding checked_mul_def using assms(2) by (simp only: if_True)
  have s: "checked_sub (amount (escrows w i)) (amount (escrows w i) * platformFeeBps w div 10000)
      = Inr (amount (escrows w i) - amount (escrows w i) * platformFeeBps w div 10000)"
    unfolding checked_sub_def using fee_le_amount [OF assms(1,2)] by (simp only: if_True)
  show ?thesis
    using assms(3,4)
    by (simp add: completeEscrow_def m s Let_def usdc_transfer_def emit_def set_status_def)
qed

lemma demo_transfers:
  "transfer demo_token (self_address demo_funded) (seller (escrows demo_funded demo_id))
      (amount (escrows demo_funded demo_id)
        - amount (escrows demo_funded demo_id) * platformFeeBps demo_funded div 10000)
      (usdc_state demo_funded)
     = Some (True, (\<lambda>_. 0)(alice := 4000000, escrow_contract := 5000, bob := 995000))"
  "transfer demo_token (self_address demo_funded) (feeCollector demo_funded)
      (amount (escrows demo_funded demo_id) * platformFeeBps demo_funded div 10000)
      ((\<lambda>_. 0)(alice := 4000000, escrow_contract := 5000, bob := 995000))
     = Some (True, usdc_state demo_released)"
  by (simp_all add: demo_defs2 fun_eq_iff)

section \<open>Payouts of the concrete deployment and of a resolution\<close>

lemma share_100:
  assumes "share_split a 100"
  shows "a * 100 div 100 = a"
proof -
  from assms have "unat (a * 100 div 100) = unat a * unat (100 :: uint256) div 100"
    unfolding share_split_def by blast
  then have "unat (a * 100 div 100) = unat a" by simp
  then show ?thesis by (simp add: word_unat_eq_iff)
qed

lemma transfers_made_Inr:
  "transfers_made w r = Inr cs \<Longrightarrow> \<exists>w'. r = Inr w' \<and> cs = new_calls w w'"
  by (cases r) (simp_all add: transfers_made_def)

lemma payout_calls:
  "(resolveDispute tok e i 100 w = Inr w' \<longrightarrow>
      new_calls w w' = (if amount (escrows w i) > 0
         then [Transfer (buyer (escrows w i)) (amount (escrows w i))] else [])) \<and>
   (resolveDispute tok e i 0 w = Inr w' \<longrightarrow>
      new_calls w w' = (if amount (escrows w i) > 0
         then [Transfer (seller (escrows w i))
                 (amount (escrows w i) - amount (escrows w i) * platformFeeBps w div 10000),
               Transfer (feeCollector w) (amount (escrows w i) * platformFeeBps w div 10000)]
         else [])) \<and>
   (releaseFunds tok e i w = Inr w' \<or> autoRelease tok e i w = Inr w' \<longrightarrow>
      new_calls w w' =
        [Transfer (seller (escrows w i))
           (amount (escrows w i) - amount (escrows w i) * platformFeeBps w div 10000),
         Transfer (feeCollector w) (amount (escrows w i) * platformFeeBps w div 10000)] \<and>
      (platformFeeBps w = 0 \<longrightarrow>
         new_calls w w' = [Transfer (seller (escrows w i)) (amount (escrows w i)),
                           Transfer (feeCollector w) 0]))"
proof (intro conjI impI)
  assume "resolveDispute tok e i 100 w = Inr w'"
  from resolveDispute_Inr [OF this]
  have s: "share_split (amount (escrows w i)) 100"
    and c: "\<exists>t. w' = w\<lparr>usdc_state := t,
            calls := calls w
              @ (if amount (escrows w i) * 100 div 100 > 0
                 then [Transfer (buyer (escrows w i)) (amount (escrows w i) * 100 div 100)] else [])
              @ (if amount (escrows w i) - amount (escrows w i) * 100 div 100 > 0
                 then [Transfer (seller (escrows w i))
                         ((amount (escrows w i) - amount (escrows w i) * 100 div 100)
                          - (amount (escrows w i) - amount (escrows w i) * 100 div 100)
                            * platformFeeBps w div 10000),
                       Transfer (feeCollector w)
                         ((amount (escrows w i) - amount (escrows w i) * 100 div 100)
                          * platformFeeBps w div 10000)]
                 else []),
            escrows := (escrows w)(i := (escrows w i)\<lparr>status := COMPLETED\<rparr>),
            events := events w @
              [DisputeResolved i (amount (escrows w i) * 100 div 100)
                 (amount (escrows w i) - amount (escrows w i) * 100 div 100)],
            reentrancy_entered := False\<rparr>"
    by blast+
  from c show "new_calls w w' = (if amount (escrows w i) > 0
         then [Transfer (buyer (escrows w i)) (amount (escrows w i))] else [])"
    unfolding share_100 [OF s] by (auto simp: new_calls_def)
next
  assume "resolveDispute tok e i 0 w = Inr w'"
  from resolveDispute_Inr [OF this]
  show "new_calls w w' = (if amount (escrows w i) > 0
         then [Transfer (seller (escrows w i))
                 (amount (escrows w i) - amount (escrows w i) * platformFeeBps w div 10000),
               Transfer (feeCollector w) (amount (escrows w i) * platformFeeBps w div 10000)]
         else [])"
    by (auto simp: new_calls_def)
next
  assume "releaseFunds tok e i w = Inr w' \<or> autoRelease tok e i w = Inr w'"
  then have "calls w' = calls w @
        [Transfer (seller (escrows w i))
           (amount (escrows w i) - amount (escrows w i) * platformFeeBps w div 10000),
         Transfer (feeCollector w) (amount (escrows w i) * platformFeeBps w div 10000)]"
  proof
    assume "releaseFunds tok e i w = Inr w'"
    from releaseFunds_Inr [OF this] show ?thesis by auto
  next
    assume "autoRelease tok e i w = Inr w'"
    from autoRelease_Inr [OF this] show ?thesis by auto
  qed
  then show c: "new_calls w w' =
        [Transfer (seller (escrows w i))
           (amount (escrows w i) - amount (escrows w i) * platformFeeBps w div 10000),
         Transfer (feeCollector w) (amount (escrows w i) * platformFeeBps w div 10000)]"
    by (rule new_calls_append)
  assume "platformFeeBps w = 0"
  with c show "new_calls w w' = [Transfer (seller (escrows w i)) (amount (escrows w i)),
                           Transfer (feeCollector w) 0]"
    by simp
qed


lemma demo_payouts:
  "transfers_made demo_disputed
     (resolveDispute demo_token (demo_env arbiter 3000) demo_id 100 demo_disputed)
     = Inr [Transfer alice 1000000]"
  "transfers_made demo_disputed
     (resolveDispute demo_token (demo_env arbiter 3000) demo_id 0 demo_disputed)
     = Inr [Transfer bob 995000, Transfer carol 5000]"
  "transfers_made demo_nofee
     (releaseFunds demo_token (demo_env alice 2000) demo_id demo_nofee)
     = Inr [Transfer bob 1000000, Transfer carol 0]"
  "transfers_made demo_disputed (completeEscrow demo_token demo_id demo_disputed)
     = Inr [Transfer bob 995000, Transfer carol 5000]"
  by (simp_all add: resolveDispute_def releaseFunds_def transfers_made_def new_calls_def
        op_defs demo_defs2 demo_nofee_def)

lemma resolve_zero_as_release:
  assumes "owner w = msg_sender e" and "\<not> reentrancy_entered w"
    and "status (escrows w i) = DISPUTED" and "amount (escrows w i) > 0"
  shows "transfers_made w (resolveDispute tok e i 0 w) = transfers_made w (completeEscrow tok i w)"
proof -
  have z: "checked_mul (amount (escrows w i)) 0 = Inr 0"
    "checked_sub (amount (escrows w i)) 0 = Inr (amount (escrows w i))"
    by (simp_all add: checked_mul_def checked_sub_def)
  show ?thesis
  proof (cases "checked_mul (amount (escrows w i)) (platformFeeBps w)")
    case (Inl err)
    with assms z show ?thesis
      by (simp add: resolveDispute_def completeEscrow_def onlyOwner_def nonReentrant_def
            pay_buyer_def pay_seller_def transfers_made_def Let_def)
  next
    case m: (Inr product)
    show ?thesis
    proof (cases "checked_sub (amount (escrows w i)) (product div 10000)")
      case (Inl err)
      with m assms z show ?thesis
        by (simp add: resolveDispute_def completeEscrow_def onlyOwner_def nonReentrant_def
              pay_buyer_def pay_seller_def transfers_made_def Let_def)
    next
      case s: (Inr net)
      with m assms z show ?thesis
        by (simp add: resolveDispute_def completeEscrow_def onlyOwner_def nonReentrant_def
              pay_buyer_def pay_seller_def transfers_made_def Let_def usdc_transfer_def
              and_then_def new_calls_def emit_def set_status_def
              split: option.splits)
    qed
  qed
qed

lemma payout_split:
  "(releaseFunds tok e i w = Inr w' \<or> autoRelease tok e i w = Inr w' \<longrightarrow>
      (let a = amount (escrows w i); fee = a * platformFeeBps w div 10000; sellerNet = a - fee in
       new_calls w w' = [Transfer (seller (escrows w i)) sellerNet, Transfer (feeCollector w) fee] \<and>
       unat fee = unat a * unat (platformFeeBps w) div 10000 \<and>
       unat sellerNet = unat a - unat fee \<and>
       sum_list (map call_amount (new_calls w w')) = unat a)) \<and>
   (resolveDispute tok e2 i2 p w2 = Inr w2' \<longrightarrow>
      (let a = amount (escrows w2 i2); buyerAmount = a * p div 100;
           sellerGross = a - buyerAmount; fee = sellerGross * platformFeeBps w2 div 10000;
           sellerNet = sellerGross - fee in
       new_calls w2 w2' =
         (if buyerAmount > 0 then [Transfer (buyer (escrows w2 i2)) buyerAmount] else []) @
         (if sellerGross > 0 then [Transfer (seller (escrows w2 i2)) sellerNet,
                                   Transfer (feeCollector w2) fee] else []) \<and>
       unat buyerAmount = unat a * unat p div 100 \<and>
       unat sellerGross = unat a - unat buyerAmount \<and>
       unat fee = unat sellerGross * unat (platformFeeBps w2) div 10000 \<and>
       unat sellerNet = unat sellerGross - unat fee \<and>
       unat buyerAmount + unat sellerNet + unat fee = unat a \<and>
       sum_list (map call_amount (new_calls w2 w2')) = unat a))"
proof (intro conjI impI)
  define a where "a = amount (escrows w i)"
  define fee where "fee = a * platformFeeBps w div 10000"
  define net where "net = a - fee"
  assume "releaseFunds tok e i w = Inr w' \<or> autoRelease tok e i w = Inr w'"
  then have "fee_split a (platformFeeBps w) \<and>
      calls w' = calls w @ [Transfer (seller (escrows w i)) net, Transfer (feeCollector w) fee]"
  proof
    assume "releaseFunds tok e i w = Inr w'"
    from releaseFunds_Inr [OF this] show ?thesis
      unfolding a_def fee_def net_def by clarsimp
  next
    assume "autoRelease tok e i w = Inr w'"
    from autoRelease_Inr [OF this] show ?thesis
      unfolding a_def fee_def net_def by clarsimp
  qed
  then have fs: "fee_split a (platformFeeBps w)"
    and c: "new_calls w w' = [Transfer (seller (escrows w i)) net, Transfer (feeCollector w) fee]"
    by (blast intro: new_calls_append)+
  from fs have f: "unat fee = unat a * unat (platformFeeBps w) div 10000" "unat fee \<le> unat a"
      "unat net = unat a - unat fee"
    unfolding fee_split_def fee_def net_def by blast+
  have "unat net + unat fee = unat a"
    using f(2,3) by linarith
  then have "sum_list (map call_amount (new_calls w w')) = unat a"
    by (simp add: c)
  with f c show "let a = amount (escrows w i); fee = a * platformFeeBps w div 10000; sellerNet = a - fee in
       new_calls w w' = [Transfer (seller (escrows w i)) sellerNet, Transfer (feeCollector w) fee] \<and>
       unat fee = unat a * unat (platformFeeBps w) div 10000 \<and>
       unat sellerNet = unat a - unat fee \<and>
       sum_list (map call_amount (new_calls w w')) = unat a"
    unfolding Let_def a_def fee_def net_def by blast
next
  define a where "a = amount (escrows w2 i2)"
  define ba where "ba = a * p div 100"
  define sg where "sg = a - ba"
  define fee where "fee = sg * platformFeeBps w2 div 10000"
  define net where "net = sg - fee"
  define cs where "cs = (if ba > 0 then [Transfer (buyer (escrows w2 i2)) ba] else []) @
         (if sg > 0 then [Transfer (seller (escrows w2 i2)) net,
                                   Transfer (feeCollector w2) fee] else [])"
  assume "resolveDispute tok e2 i2 p w2 = Inr w2'"
  from resolveDispute_Inr [OF this]
  have "share_split a p \<and> fee_split sg (platformFeeBps w2) \<and> calls w2' = calls w2 @ cs"
    unfolding a_def ba_def sg_def fee_def net_def cs_def by clarsimp
  then have ss: "share_split a p" and fs: "fee_split sg (platformFeeBps w2)"
    and c: "new_calls w2 w2' = cs"
    by (blast intro: new_calls_append)+
  from ss have f1: "unat ba = unat a * unat p div 100" "unat ba \<le> unat a"
      "unat sg = unat a - unat ba"
    unfolding share_split_def ba_def sg_def by blast+
  from fs have f2: "unat fee = unat sg * unat (platformFeeBps w2) div 10000" "unat fee \<le> unat sg"
      "unat net = unat sg - unat fee"
    unfolding fee_split_def fee_def net_def by blast+
  have sgz: "\<not> 0 < sg \<Longrightarrow> unat net = 0 \<and> unat fee = 0"
    using f2(2,3) by (simp add: word_not_pos_unat)
  have s1: "unat ba + unat net + unat fee = unat a"
    using f1(2,3) f2(2,3) by linarith
  have "sum_list (map call_amount cs) = unat ba + unat net + unat fee"
    using sgz by (simp add: cs_def word_not_pos_unat)
  with s1 have s2: "sum_list (map call_amount (new_calls w2 w2')) = unat a"
    by (simp add: c)
  from f1 f2 c s1 s2
  show "let a = amount (escrows w2 i2); buyerAmount = a * p div 100;
           sellerGross = a - buyerAmount; fee = sellerGross * platformFeeBps w2 div 10000;
           sellerNet = sellerGross - fee in
       new_calls w2 w2' =
         (if buyerAmount > 0 then [Transfer (buyer (escrows w2 i2)) buyerAmount] else []) @
         (if sellerGross > 0 then [Transfer (seller (escrows w2 i2)) sellerNet,
                                   Transfer (feeCollector w2) fee] else []) \<and>
       unat buyerAmount = unat a * unat p div 100 \<and>
       unat sellerGross = unat a - unat buyerAmount \<and>
       unat fee = unat sellerGross * unat (platformFeeBps w2) div 10000 \<and>
       unat sellerNet = unat sellerGross - unat fee \<and>
       unat buyerAmount + unat sellerNet + unat fee = unat a \<and>
       sum_list (map call_amount (new_calls w2 w2')) = unat a"
    unfolding Let_def cs_def a_def ba_def sg_def fee_def net_def by blast
qed

section \<open>The release paths and the cases of a resolution\<close>

lemma release_paths_succeed:
  assumes r: "reachable tok kec w" and f: "status (escrows w i) = FUNDED"
    and o: "unat (amount (escrows w i)) * unat (platformFeeBps w) < 2 ^ 256"
    and x1: "transfer tok (self_address w) (seller (escrows w i))
      (amount (escrows w i) - amount (escrows w i) * platformFeeBps w div 10000)
      (usdc_state w) = Some (True, t1)"
    and x2: "transfer tok (self_address w) (feeCollector w)
      (amount (escrows w i) * platformFeeBps w div 10000) t1 = Some (True, t2)"
  shows "(msg_sender e = buyer (escrows w i) \<longrightarrow> (\<exists>w'. releaseFunds tok e i w = Inr w')) \<and>
     (autoReleaseTime (escrows w i) \<le> block_timestamp e \<longrightarrow>
        (\<exists>w'. autoRelease tok e i w = Inr w'))"
proof -
  from reachable_config_ok [OF r]
  have c: "\<not> reentrancy_entered w" "platformFeeBps w \<le> 1000"
    unfolding config_ok_def by blast+
  from reachable_good [OF r, of i] f have u: "\<not> disputeRaised (escrows w i)"
    unfolding good_def by auto
  define v where "v = w\<lparr>reentrancy_entered := True\<rparr>"
  have ev: "escrows v = escrows w" "platformFeeBps v = platformFeeBps w"
    "self_address v = self_address w" "feeCollector v = feeCollector w"
    "usdc_state v = usdc_state w"
    by (simp_all add: v_def)
  have "\<exists>w'. completeEscrow tok i v = Inr w' \<and> status (escrows w' i) = COMPLETED"
  proof (rule completeEscrow_succeeds)
    show "platformFeeBps v \<le> 1000" unfolding ev by (rule c(2))
    show "unat (amount (escrows v i)) * unat (platformFeeBps v) < 2 ^ 256"
      unfolding ev by (rule o)
    show "transfer tok (self_address v) (seller (escrows v i))
           (amount (escrows v i) - amount (escrows v i) * platformFeeBps v div 10000)
           (usdc_state v) = Some (True, t1)"
      unfolding ev by (rule x1)
    show "transfer tok (self_address v) (feeCollector v)
           (amount (escrows v i) * platformFeeBps v div 10000) t1 = Some (True, t2)"
      unfolding ev by (rule x2)
  qed
  then obtain w1 where w1: "completeEscrow tok i v = Inr w1" by blast
  have 1: "\<exists>w'. releaseFunds tok e i w = Inr w'" if "msg_sender e = buyer (escrows w i)"
    using that f u c(1) w1
    by (simp add: releaseFunds_def nonReentrant_def v_def [symmetric] ev)
  have 2: "\<exists>w'. autoRelease tok e i w = Inr w'"
    if "autoReleaseTime (escrows w i) \<le> block_timestamp e"
    using that f u c(1) w1
    by (simp add: autoRelease_def nonReentrant_def v_def [symmetric] ev)
  from 1 2 show ?thesis by blast
qed

lemma demo_auto_release:
  "autoRelease demo_token (demo_env carol 605800) demo_id demo_funded = Inr demo_auto_released"
  by (simp add: autoRelease_def op_defs demo_defs2 demo_auto_released_def)

lemma transfers_made_InrI:
  "r = Inr w' \<Longrightarrow> new_calls w w' = cs \<Longrightarrow> transfers_made w r = Inr cs"
  by (simp add: transfers_made_def)

lemma zero_share_cases:
  "(transfers_made w (resolveDispute tok e i 100 w) = Inr cs \<longrightarrow>
      cs = (if amount (escrows w i) > 0
         then [Transfer (buyer (escrows w i)) (amount (escrows w i))] else [])) \<and>
   (transfers_made w (resolveDispute tok e i 0 w) = Inr cs \<longrightarrow>
      cs = (if amount (escrows w i) > 0
         then [Transfer (seller (escrows w i))
                 (amount (escrows w i) - amount (escrows w i) * platformFeeBps w div 10000),
               Transfer (feeCollector w) (amount (escrows w i) * platformFeeBps w div 10000)]
         else [])) \<and>
   (transfers_made w (releaseFunds tok e i w) = Inr cs \<or>
    transfers_made w (autoRelease tok e i w) = Inr cs \<longrightarrow>
      cs = [Transfer (seller (escrows w i))
              (amount (escrows w i) - amount (escrows w i) * platformFeeBps w div 10000),
            Transfer (feeCollector w) (amount (escrows w i) * platformFeeBps w div 10000)] \<and>
      (platformFeeBps w = 0 \<longrightarrow>
         cs = [Transfer (seller (escrows w i)) (amount (escrows w i)),
               Transfer (feeCollector w) 0]))"
proof (intro conjI impI)
  assume "transfers_made w (resolveDispute tok e i 100 w) = Inr cs"
  from transfers_made_Inr [OF this] obtain w' where
    "resolveDispute tok e i 100 w = Inr w'" "cs = new_calls w w'" by blast
  with payout_calls [of tok e i w w']
  show "cs = (if amount (escrows w i) > 0
         then [Transfer (buyer (escrows w i)) (amount (escrows w i))] else [])"
    by blast
next
  assume "transfers_made w (resolveDispute tok e i 0 w) = Inr cs"
  from transfers_made_Inr [OF this] obtain w' where
    "resolveDispute tok e i 0 w = Inr w'" "cs = new_calls w w'" by blast
  with payout_calls [of tok e i w w']
  show "cs = (if amount (escrows w i) > 0
         then [Transfer (seller (escrows w i))
                 (amount (escrows w i) - amount (escrows w i) * platformFeeBps w div 10000),
               Transfer (feeCollector w) (amount (escrows w i) * platformFeeBps w div 10000)]
         else [])"
    by blast
next
  assume "transfers_made w (releaseFunds tok e i w) = Inr cs \<or>
    transfers_made w (autoRelease tok e i w) = Inr cs"
  then obtain w' where
    x: "releaseFunds tok e i w = Inr w' \<or> autoRelease tok e i w = Inr w'" "cs = new_calls w w'"
    using transfers_made_Inr by blast
  with payout_calls [of tok e i w w']
  show "cs = [Transfer (seller (escrows w i))
              (amount (escrows w i) - amount (escrows w i) * platformFeeBps w div 10000),
            Transfer (feeCollector w) (amount (escrows w i) * platformFeeBps w div 10000)]"
    by blast
  assume "platformFeeBps w = 0"
  with x payout_calls [of tok e i w w']
  show "cs = [Transfer (seller (escrows w i)) (amount (escrows w i)),
               Transfer (feeCollector w) 0]"
    by blast
qed

lemma demo_payouts_nofee:
  "raiseDispute (demo_env bob 1600) demo_id demo_nofee = Inr demo_nofee_disputed"
  "transfers_made demo_nofee_disputed
     (resolveDispute demo_token (demo_env arbiter 3000) demo_id 30 demo_nofee_disputed)
     = Inr [Transfer alice 300000, Transfer bob 700000, Transfer carol 0]"
  "transfers_made demo_nofee
     (autoRelease demo_token (demo_env carol 605800) demo_id demo_nofee)
     = Inr [Transfer bob 1000000, Transfer carol 0]"
  by (simp_all add: raiseDispute_def resolveDispute_def autoRelease_def transfers_made_def
        new_calls_def op_defs demo_defs2 demo_nofee_def demo_nofee_disputed_def)

section \<open>Payouts\<close>

text \<open>
  Claim C1. Whenever \<open>releaseFunds\<close> or \<open>autoRelease\<close> returns, the transaction made
  exactly two token calls: the seller receives \<open>amount - fee\<close> and the fee collector
  receives \<open>fee = amount * platformFeeBps / 10000\<close> (the product does not wrap, the
  division truncates), and the two amounts add up to \<open>amount\<close>. Whenever
  \<open>resolveDispute\<close> returns, the buyer's share is \<open>amount * buyerPercentage / 100\<close>, the
  fee is taken from the seller's share only, and the amounts of the calls made (those of
  a zero share are skipped) add up to \<open>amount\<close>. No bound on the amount or on the fee is
  needed: a transaction whose arithmetic leaves \<open>uint256\<close> reverts. And the two release
  paths do pay: in a reachable state, on a funded escrow whose fee product fits
  \<open>uint256\<close> and with a token that accepts the two transfers, \<open>releaseFunds\<close> called by
  the buyer and \<open>autoRelease\<close> called at or after the deadline both return with exactly
  these two calls, whose amounts add up to \<open>amount\<close>.
\<close>

theorem payout_sums_to_amount:
  "(releaseFunds tok e i w = Inr w' \<or> autoRelease tok e i w = Inr w' \<longrightarrow>
      (let a = amount (escrows w i); fee = a * platformFeeBps w div 10000; sellerNet = a - fee in
       new_calls w w' = [Transfer (seller (escrows w i)) sellerNet, Transfer (feeCollector w) fee] \<and>
       unat fee = unat a * unat (platformFeeBps w) div 10000 \<and>
       unat sellerNet = unat a - unat fee \<and>
       sum_list (map call_amount (new_calls w w')) = unat a)) \<and>
   (resolveDispute tok e2 i2 p w2 = Inr w2' \<longrightarrow>
      (let a = amount (escrows w2 i2); buyerAmount = a * p div 100;
           sellerGross = a - buyerAmount; fee = sellerGross * platformFeeBps w2 div 10000;
           sellerNet = sellerGross - fee in
       new_calls w2 w2' =
         (if buyerAmount > 0 then [Transfer (buyer (escrows w2 i2)) buyerAmount] else []) @
         (if sellerGross > 0 then [Transfer (seller (escrows w2 i2)) sellerNet,
                                   Transfer (feeCollector w2) fee] else []) \<and>
       unat buyerAmount = unat a * unat p div 100 \<and>
       unat sellerGross = unat a - unat buyerAmount \<and>
       unat fee = unat sellerGross * unat (platformFeeBps w2) div 10000 \<and>
       unat sellerNet = unat sellerGross - unat fee \<and>
       unat buyerAmount + unat sellerNet + unat fee = unat a \<and>
       sum_list (map call_amount (new_calls w2 w2')) = unat a)) \<and>
   (reachable tok kec w3 \<and> status (escrows w3 i3) = FUNDED \<and>
    unat (amount (escrows w3 i3)) * unat (platformFeeBps w3) < 2 ^ 256 \<and>
    transfer tok (self_address w3) (seller (escrows w3 i3))
      (amount (escrows w3 i3) - amount (escrows w3 i3) * platformFeeBps w3 div 10000)
      (usdc_state w3) = Some (True, t1) \<and>
    transfer tok (self_address w3) (feeCollector w3)
      (amount (escrows w3 i3) * platformFeeBps w3 div 10000) t1 = Some (True, t2) \<longrightarrow>
      (msg_sender e3 = buyer (escrows w3 i3) \<longrightarrow>
         transfers_made w3 (releaseFunds tok e3 i3 w3)
           = Inr [Transfer (seller (escrows w3 i3))
                    (amount (escrows w3 i3)
                      - amount (escrows w3 i3) * platformFeeBps w3 div 10000),
                  Transfer (feeCollector w3)
                    (amount (escrows w3 i3) * platformFeeBps w3 div 10000)]) \<and>
      (autoReleaseTime (escrows w3 i3) \<le> block_timestamp e3 \<longrightarrow>
         transfers_made w3 (autoRelease tok e3 i3 w3)
           = Inr [Transfer (seller (escrows w3 i3))
                    (amount (escrows w3 i3)
                      - amount (escrows w3 i3) * platformFeeBps w3 div 10000),
                  Transfer (feeCollector w3)
                    (amount (escrows w3 i3) * platformFeeBps w3 div 10000)]) \<and>
      unat (amount (escrows w3 i3) - amount (escrows w3 i3) * platformFeeBps w3 div 10000)
        + unat (amount (escrows w3 i3) * platformFeeBps w3 div 10000)
        = unat (amount (escrows w3 i3)))"
proof -
  note s = payout_split [of tok e i w w' e2 i2 p w2 w2']
  have c: "transfers_made w3 (releaseFunds tok e3 i3 w3)
           = Inr [Transfer (seller (escrows w3 i3))
                    (amount (escrows w3 i3)
                      - amount (escrows w3 i3) * platformFeeBps w3 div 10000),
                  Transfer (feeCollector w3)
                    (amount (escrows w3 i3) * platformFeeBps w3 div 10000)]"
    if "releaseFunds tok e3 i3 w3 = Inr v" for v
    using that payout_split [of tok e3 i3 w3 v]
    by (simp add: transfers_made_def Let_def)
  have d: "transfers_made w3 (autoRelease tok e3 i3 w3)
           = Inr [Transfer (seller (escrows w3 i3))
                    (amount (escrows w3 i3)
                      - amount (escrows w3 i3) * platformFeeBps w3 div 10000),
                  Transfer (feeCollector w3)
                    (amount (escrows w3 i3) * platformFeeBps w3 div 10000)]"
    if "autoRelease tok e3 i3 w3 = Inr v" for v
    using that payout_split [of tok e3 i3 w3 v]
    by (simp add: transfers_made_def Let_def)
  have n: "unat (amount (escrows w3 i3) - amount (escrows w3 i3) * platformFeeBps w3 div 10000)
        + unat (amount (escrows w3 i3) * platformFeeBps w3 div 10000)
        = unat (amount (escrows w3 i3))"
    if "unat (amount (escrows w3 i3)) * unat (platformFeeBps w3) < 2 ^ 256"
      and "reachable tok kec w3"
  proof -
    from reachable_config_ok [OF that(2)] have "platformFeeBps w3 \<le> 1000"
      unfolding config_ok_def by blast
    from fee_le_amount [OF this that(1)]
    have l: "unat (amount (escrows w3 i3) * platformFeeBps w3 div 10000)
        \<le> unat (amount (escrows w3 i3))" .
    then have "amount (escrows w3 i3) * platformFeeBps w3 div 10000 \<le> amount (escrows w3 i3)"
      by (simp add: word_le_nat_alt)
    then have "unat (amount (escrows w3 i3) - amount (escrows w3 i3) * platformFeeBps w3 div 10000)
        = unat (amount (escrows w3 i3))
          - unat (amount (escrows w3 i3) * platformFeeBps w3 div 10000)"
      by (rule unat_sub)
    with l show ?thesis by linarith
  qed
  have x: "(msg_sender e3 = buyer (escrows w3 i3) \<longrightarrow> (\<exists>v. releaseFunds tok e3 i3 w3 = Inr v)) \<and>
     (autoReleaseTime (escrows w3 i3) \<le> block_timestamp e3 \<longrightarrow>
        (\<exists>v. autoRelease tok e3 i3 w3 = Inr v))"
    if "reachable tok kec w3" "status (escrows w3 i3) = FUNDED"
      "unat (amount (escrows w3 i3)) * unat (platformFeeBps w3) < 2 ^ 256"
      "transfer tok (self_address w3) (seller (escrows w3 i3))
        (amount (escrows w3 i3) - amount (escrows w3 i3) * platformFeeBps w3 div 10000)
        (usdc_state w3) = Some (True, t1)"
      "transfer tok (self_address w3) (feeCollector w3)
        (amount (escrows w3 i3) * platformFeeBps w3 div 10000) t1 = Some (True, t2)"
    using that by (rule release_paths_succeed)
  from s c d n x show ?thesis by blast
qed

theorem payout_sums_to_amount_witness:
  "releaseFunds demo_token (demo_env alice 2000) demo_id demo_funded = Inr demo_released \<and>
   new_calls demo_funded demo_released = [Transfer bob 995000, Transfer carol 5000] \<and>
   sum_list (map call_amount (new_calls demo_funded demo_released)) = 1000000 \<and>
   autoRelease demo_token (demo_env carol 605800) demo_id demo_funded = Inr demo_auto_released \<and>
   new_calls demo_funded demo_auto_released = [Transfer bob 995000, Transfer carol 5000] \<and>
   sum_list (map call_amount (new_calls demo_funded demo_auto_released)) = 1000000 \<and>
   resolveDispute demo_token (demo_env arbiter 3000) demo_id 30 demo_disputed = Inr demo_resolved \<and>
   new_calls demo_disputed demo_resolved
     = [Transfer alice 300000, Transfer bob 696500, Transfer carol 3500] \<and>
   sum_list (map call_amount (new_calls demo_disputed demo_resolved)) = 1000000 \<and>
   reachable demo_token demo_kec demo_funded \<and>
   status (escrows demo_funded demo_id) = FUNDED \<and>
   transfers_made demo_funded
     (releaseFunds demo_token (demo_env alice 2000) demo_id demo_funded)
     = Inr [Transfer bob 995000, Transfer carol 5000] \<and>
   transfers_made demo_funded
     (autoRelease demo_token (demo_env carol 605800) demo_id demo_funded)
     = Inr [Transfer bob 995000, Transfer carol 5000]"
proof -
  note t = payout_sums_to_amount [where tok = demo_token and kec = demo_kec
      and i = demo_id and w = demo_funded
      and ?e2.0 = "demo_env arbiter 3000" and ?i2.0 = demo_id and p = 30
      and ?w2.0 = demo_disputed and ?w2' = demo_resolved
      and ?w3.0 = demo_funded and ?i3.0 = demo_id
      and ?t1.0 = "(\<lambda>_. 0)(alice := 4000000, escrow_contract := 5000, bob := 995000)"
      and ?t2.0 = "usdc_state demo_released"]
  have f: "unat (amount (escrows demo_funded demo_id)) * unat (platformFeeBps demo_funded) < 2 ^ 256"
    "msg_sender (demo_env alice 2000) = buyer (escrows demo_funded demo_id)"
    "autoReleaseTime (escrows demo_funded demo_id) \<le> block_timestamp (demo_env carol 605800)"
    by (simp_all add: demo_defs2)
  from t [where e = "demo_env alice 2000" and w' = demo_released
      and ?e3.0 = "demo_env alice 2000"]
    demo_release demo_resolve
  have 1: "new_calls demo_funded demo_released = [Transfer bob 995000, Transfer carol 5000]"
    "sum_list (map call_amount (new_calls demo_funded demo_released)) = 1000000"
    "new_calls demo_disputed demo_resolved
       = [Transfer alice 300000, Transfer bob 696500, Transfer carol 3500]"
    "sum_list (map call_amount (new_calls demo_disputed demo_resolved)) = 1000000"
    by (simp_all add: Let_def demo_defs2)
  from t [where e = "demo_env carol 605800" and w' = demo_auto_released
      and ?e3.0 = "demo_env carol 605800"]
    demo_auto_release
  have 2: "new_calls demo_funded demo_auto_released = [Transfer bob 995000, Transfer carol 5000]"
    "sum_list (map call_amount (new_calls demo_funded demo_auto_released)) = 1000000"
    by (simp_all add: Let_def demo_defs2)
  from t [where e = "demo_env alice 2000" and w' = demo_released
      and ?e3.0 = "demo_env alice 2000"]
    demo_reachable(3) demo_status(3) f(1,2) demo_transfers
  have "transfers_made demo_funded
     (releaseFunds demo_token (demo_env alice 2000) demo_id demo_funded)
     = Inr [Transfer (seller (escrows demo_funded demo_id))
              (amount (escrows demo_funded demo_id)
                - amount (escrows demo_funded demo_id) * platformFeeBps demo_funded div 10000),
            Transfer (feeCollector demo_funded)
              (amount (escrows demo_funded demo_id) * platformFeeBps demo_funded div 10000)]"
    by blast
  then have 3: "transfers_made demo_funded
     (releaseFunds demo_token (demo_env alice 2000) demo_id demo_funded)
     = Inr [Transfer bob 995000, Transfer carol 5000]"
    by (simp add: demo_defs2)
  from t [where e = "demo_env carol 605800" and w' = demo_auto_released
      and ?e3.0 = "demo_env carol 605800"]
    demo_reachable(3) demo_status(3) f(1,3) demo_transfers
  have "transfers_made demo_funded
     (autoRelease demo_token (demo_env carol 605800) demo_id demo_funded)
     = Inr [Transfer (seller (escrows demo_funded demo_id))
              (amount (escrows demo_funded demo_id)
                - amount (escrows demo_funded demo_id) * platformFeeBps demo_funded div 10000),
            Transfer (feeCollector demo_funded)
              (amount (escrows demo_funded demo_id) * platformFeeBps demo_funded div 10000)]"
    by blast
  then have 4: "transfers_made demo_funded
     (autoRelease demo_token (demo_env carol 605800) demo_id demo_funded)
     = Inr [Transfer bob 995000, Transfer carol 5000]"
    by (simp add: demo_defs2)
  from 1 2 3 4 demo_release demo_auto_release demo_resolve demo_reachable(3) demo_status(3)
  show ?thesis by blast
qed

section \<open>Authorisation and input checks\<close>

text \<open>
  Claim C9. \<open>releaseFunds\<close> called on a funded escrow by anyone who is not its buyer (the
  seller, for one) reverts with "Only buyer can release": no token call is made and, as
  the transaction reverts, the world with every record in it stays as it was.
\<close>

theorem release_by_non_buyer_reverts:
  "status (escrows w i) = FUNDED \<Longrightarrow> msg_sender e \<noteq> buyer (escrows w i) \<Longrightarrow>
   \<not> reentrancy_entered w \<Longrightarrow>
     releaseFunds tok e i w = Inl (Revert ''Only buyer can release'') \<and>
     transfers_made w (releaseFunds tok e i w) = Inl (Revert ''Only buyer can release'') \<and>
     run tok kec [(e, ReleaseFunds i)] w = w"
  by (simp add: releaseFunds_def nonReentrant_def transfers_made_def)

theorem release_by_non_buyer_reverts_witness:
  "status (escrows demo_funded demo_id) = FUNDED \<and>
   msg_sender (demo_env bob 2000) = seller (escrows demo_funded demo_id) \<and>
   msg_sender (demo_env bob 2000) \<noteq> buyer (escrows demo_funded demo_id) \<and>
   \<not> reentrancy_entered demo_funded \<and>
   releaseFunds demo_token (demo_env bob 2000) demo_id demo_funded
     = Inl (Revert ''Only buyer can release'') \<and>
   run demo_token demo_kec [(demo_env bob 2000, ReleaseFunds demo_id)] demo_funded = demo_funded"
proof -
  have h: "status (escrows demo_funded demo_id) = FUNDED"
    "msg_sender (demo_env bob 2000) \<noteq> buyer (escrows demo_funded demo_id)"
    "\<not> reentrancy_entered demo_funded"
    "msg_sender (demo_env bob 2000) = seller (escrows demo_funded demo_id)"
    by (simp_all add: demo_defs2)
  from release_by_non_buyer_reverts [OF h(1,2,3), of demo_token demo_kec] h
  show ?thesis by blast
qed


text \<open>
  Claim C6. \<open>createEscrow\<close> returns only for a buyer and a seller that are distinct and
  not \<open>address(0)\<close> and for an amount above zero. With a zero address it reverts with
  "Invalid addresses", with equal parties with "Buyer and seller cannot be the same",
  with a zero amount with "Amount must be greater than 0"; in each case the transaction
  reverts, so nothing is stored.
\<close>

theorem create_validates_input:
  "(createEscrow kec e b s a w = Inr (i, w') \<longrightarrow> b \<noteq> 0 \<and> s \<noteq> 0 \<and> b \<noteq> s \<and> 0 < a) \<and>
   (b = 0 \<or> s = 0 \<longrightarrow> createEscrow kec e b s a w = Inl (Revert ''Invalid addresses'')) \<and>
   (b \<noteq> 0 \<and> s \<noteq> 0 \<and> b = s \<longrightarrow>
      createEscrow kec e b s a w = Inl (Revert ''Buyer and seller cannot be the same'')) \<and>
   (b \<noteq> 0 \<and> s \<noteq> 0 \<and> b \<noteq> s \<and> a = 0 \<longrightarrow>
      createEscrow kec e b s a w = Inl (Revert ''Amount must be greater than 0'')) \<and>
   (b = 0 \<or> s = 0 \<or> b = s \<or> a = 0 \<longrightarrow> run tok kec [(e, CreateEscrow b s a)] w = w)"
proof -
  have 1: "createEscrow kec e b s a w = Inr (i, w') \<longrightarrow> b \<noteq> 0 \<and> s \<noteq> 0 \<and> b \<noteq> s \<and> 0 < a"
    using createEscrow_Inr [of kec e b s a w i w'] by blast
  have 2: "b = 0 \<or> s = 0 \<longrightarrow> createEscrow kec e b s a w = Inl (Revert ''Invalid addresses'')"
    by (auto simp: createEscrow_def)
  have 3: "b \<noteq> 0 \<and> s \<noteq> 0 \<and> b = s \<longrightarrow>
      createEscrow kec e b s a w = Inl (Revert ''Buyer and seller cannot be the same'')"
    by (simp add: createEscrow_def)
  have 4: "b \<noteq> 0 \<and> s \<noteq> 0 \<and> b \<noteq> s \<and> a = 0 \<longrightarrow>
      createEscrow kec e b s a w = Inl (Revert ''Amount must be greater than 0'')"
    by (simp add: createEscrow_def)
  have 5: "b = 0 \<or> s = 0 \<or> b = s \<or> a = 0 \<longrightarrow> run tok kec [(e, CreateEscrow b s a)] w = w"
    using 2 3 4 by (cases "b = 0 \<or> s = 0"; cases "b = s"; cases "a = 0") auto
  from 1 2 3 4 5 show ?thesis by blast
qed

theorem create_validates_input_witness:
  "createEscrow demo_kec (demo_env alice 1000) alice bob 1000000 demo_deployed
     = Inr (demo_id, demo_created) \<and>
   alice \<noteq> 0 \<and> bob \<noteq> 0 \<and> alice \<noteq> bob \<and> (0 :: uint256) < 1000000 \<and>
   createEscrow demo_kec (demo_env alice 1000) 0 bob 1000000 demo_deployed
     = Inl (Revert ''Invalid addresses'') \<and>
   createEscrow demo_kec (demo_env alice 1000) alice alice 1000000 demo_deployed
     = Inl (Revert ''Buyer and seller cannot be the same'') \<and>
   createEscrow demo_kec (demo_env alice 1000) alice bob 0 demo_deployed
     = Inl (Revert ''Amount must be greater than 0'') \<and>
   run demo_token demo_kec [(demo_env alice 1000, CreateEscrow alice bob 0)] demo_deployed
     = demo_deployed"
  using create_validates_input [of demo_kec "demo_env alice 1000" alice bob 1000000
      demo_deployed demo_id demo_created demo_token]
    create_validates_input [of demo_kec "demo_env alice 1000" 0 bob 1000000
      demo_deployed demo_id demo_created demo_token]
    create_validates_input [of demo_kec "demo_env alice 1000" alice alice 1000000
      demo_deployed demo_id demo_created demo_token]
    create_validates_input [of demo_kec "demo_env alice 1000" alice bob 0
      demo_deployed demo_id demo_created demo_token]
    demo_create
  by (simp add: alice_def bob_def)

section \<open>The state machine\<close>

text \<open>
  Claim C5. From any reachable state, along any sequence of transactions (those that
  revert change nothing), the status of an escrow never moves down in the order
  Created < Funded < {Completed, Disputed, Refunded, Cancelled}, and a status of
  Completed, Refunded or Cancelled never changes again. \<open>fundEscrow\<close> on an escrow that
  is already funded, in particular a second \<open>fundEscrow\<close> after a first one that returned,
  reverts with "Invalid escrow status" and leaves the world as it was.
\<close>

theorem status_monotone:
  "(reachable tok kec w \<and> (\<forall>(e, t) \<in> set txs. msg_sender e \<noteq> 0) \<longrightarrow>
      status_rank (status (escrows w i)) \<le> status_rank (status (escrows (run tok kec txs w) i)) \<and>
      (status (escrows w i) = COMPLETED \<or> status (escrows w i) = REFUNDED \<or>
       status (escrows w i) = CANCELLED
         \<longrightarrow> status (escrows (run tok kec txs w) i) = status (escrows w i))) \<and>
   (fundEscrow tok e1 i w = Inr w' \<longrightarrow>
      fundEscrow tok e2 i w' = Inl (Revert ''Invalid escrow status'') \<and>
      run tok kec [(e2, FundEscrow i)] w' = w') \<and>
   (status (escrows w i) = FUNDED \<and> \<not> reentrancy_entered w \<longrightarrow>
      fundEscrow tok e2 i w = Inl (Revert ''Invalid escrow status'') \<and>
      run tok kec [(e2, FundEscrow i)] w = w)"
proof (intro conjI impI)
  assume "reachable tok kec w \<and> (\<forall>(e, t) \<in> set txs. msg_sender e \<noteq> 0)"
  then have r: "reachable tok kec w" and s: "\<forall>(e, t) \<in> set txs. msg_sender e \<noteq> 0"
    by blast+
  from run_rank [OF r s, of i]
  show "status_rank (status (escrows w i)) \<le> status_rank (status (escrows (run tok kec txs w) i))"
    by blast
  assume "status (escrows w i) = COMPLETED \<or> status (escrows w i) = REFUNDED \<or>
       status (escrows w i) = CANCELLED"
  with run_rank [OF r s, of i]
  show "status (escrows (run tok kec txs w) i) = status (escrows w i)"
    by blast
next
  assume "fundEscrow tok e1 i w = Inr w'"
  from fundEscrow_Inr [OF this]
  have "status (escrows w' i) = FUNDED" "\<not> reentrancy_entered w'"
    by (clarsimp)+
  then show 1: "fundEscrow tok e2 i w' = Inl (Revert ''Invalid escrow status'')"
    by (simp add: fundEscrow_def nonReentrant_def)
  then show "run tok kec [(e2, FundEscrow i)] w' = w'" by simp
next
  assume "status (escrows w i) = FUNDED \<and> \<not> reentrancy_entered w"
  then show 1: "fundEscrow tok e2 i w = Inl (Revert ''Invalid escrow status'')"
    by (simp add: fundEscrow_def nonReentrant_def)
  then show "run tok kec [(e2, FundEscrow i)] w = w" by simp
qed

theorem status_monotone_witness:
  "reachable demo_token demo_kec demo_deployed \<and>
   status (escrows demo_deployed demo_id) = CREATED \<and>
   status (escrows (run demo_token demo_kec
     [(demo_env alice 1000, CreateEscrow alice bob 1000000),
      (demo_env alice 1001, FundEscrow demo_id),
      (demo_env alice 2000, ReleaseFunds demo_id)] demo_deployed) demo_id) = COMPLETED \<and>
   status (escrows (run demo_token demo_kec [(demo_env alice 3000, FundEscrow demo_id)]
      demo_released) demo_id) = COMPLETED \<and>
   fundEscrow demo_token (demo_env alice 1001) demo_id demo_created = Inr demo_funded \<and>
   fundEscrow demo_token (demo_env alice 1005) demo_id demo_funded
     = Inl (Revert ''Invalid escrow status'') \<and>
   run demo_token demo_kec [(demo_env alice 1005, FundEscrow demo_id)] demo_funded = demo_funded"
proof -
  have r: "reachable demo_token demo_kec demo_released"
    using run_reachable [OF demo_reachable(1), of
      "[(demo_env alice 1000, CreateEscrow alice bob 1000000),
        (demo_env alice 1001, FundEscrow demo_id),
        (demo_env alice 2000, ReleaseFunds demo_id)]"]
    by (simp add: demo_create demo_fund demo_release demo_senders)
  have s: "\<forall>(e, t) \<in> set [(demo_env alice 3000, FundEscrow demo_id)]. msg_sender e \<noteq> 0"
    by (simp add: demo_senders)
  from status_monotone [of demo_token demo_kec demo_released
      "[(demo_env alice 3000, FundEscrow demo_id)]" demo_id
      "demo_env alice 1001" demo_released "demo_env alice 1005"] r s
  have 1: "status (escrows (run demo_token demo_kec [(demo_env alice 3000, FundEscrow demo_id)]
      demo_released) demo_id) = COMPLETED"
    by (simp add: demo_status)
  from status_monotone [of demo_token demo_kec demo_created "[]" demo_id
      "demo_env alice 1001" demo_funded "demo_env alice 1005"] demo_fund
  have 2: "fundEscrow demo_token (demo_env alice 1005) demo_id demo_funded
     = Inl (Revert ''Invalid escrow status'')"
    "run demo_token demo_kec [(demo_env alice 1005, FundEscrow demo_id)] demo_funded = demo_funded"
    by blast+
  from 1 2 demo_reachable(1) demo_fund show ?thesis
    by (simp add: demo_run demo_status del: run.simps)
qed

text \<open>
  Claim C10. In every reachable state a funded escrow has no dispute raised. Hence
  neither \<open>releaseFunds\<close> nor \<open>autoRelease\<close> ever reverts with "Dispute is active".
  \<open>raiseDispute\<close>, the one function that sets the flag, moves the status to Disputed in
  the same step, and an escrow whose flag is set is never funded again, whatever
  transactions follow.
\<close>

theorem funded_never_disputed:
  "reachable tok kec w \<Longrightarrow>
     (status (escrows w i) = FUNDED \<longrightarrow> \<not> disputeRaised (escrows w i)) \<and>
     releaseFunds tok e i w \<noteq> Inl (Revert ''Dispute is active'') \<and>
     autoRelease tok e i w \<noteq> Inl (Revert ''Dispute is active'') \<and>
     (raiseDispute e i w = Inr w' \<longrightarrow>
        status (escrows w' i) = DISPUTED \<and> disputeRaised (escrows w' i)) \<and>
     (disputeRaised (escrows w i) \<and> (\<forall>(e, t) \<in> set txs. msg_sender e \<noteq> 0) \<longrightarrow>
        status (escrows (run tok kec txs w) i) \<noteq> FUNDED)"
proof (intro conjI impI)
  assume r: "reachable tok kec w"
  from reachable_good [OF r, of i]
  have g: "disputeRaised (escrows w i) \<longrightarrow>
      status (escrows w i) = DISPUTED \<or> status (escrows w i) = COMPLETED"
    unfolding good_def by blast
  then show u: "\<not> disputeRaised (escrows w i)" if "status (escrows w i) = FUNDED"
    using that by auto
  show "releaseFunds tok e i w \<noteq> Inl (Revert ''Dispute is active'')"
  proof
    assume a: "releaseFunds tok e i w = Inl (Revert ''Dispute is active'')"
    show False
    proof (cases "status (escrows w i) = FUNDED")
      case True
      with u a show False
        by (auto simp: releaseFunds_def nonReentrant_def and_then_eq_Inl
              dest!: completeEscrow_Inl split: if_splits)
    next
      case False
      with a show False
        by (auto simp: releaseFunds_def nonReentrant_def split: if_splits)
    qed
  qed
  show "autoRelease tok e i w \<noteq> Inl (Revert ''Dispute is active'')"
  proof
    assume a: "autoRelease tok e i w = Inl (Revert ''Dispute is active'')"
    show False
    proof (cases "status (escrows w i) = FUNDED")
      case True
      with u a show False
        by (auto simp: autoRelease_def nonReentrant_def and_then_eq_Inl
              dest!: completeEscrow_Inl split: if_splits)
    next
      case False
      with a show False
        by (auto simp: autoRelease_def nonReentrant_def split: if_splits)
    qed
  qed
  {
    assume "raiseDispute e i w = Inr w'"
    from raiseDispute_Inr [OF this]
    show "status (escrows w' i) = DISPUTED" "disputeRaised (escrows w' i)"
      by simp_all
  }
  assume "disputeRaised (escrows w i) \<and> (\<forall>(e, t) \<in> set txs. msg_sender e \<noteq> 0)"
  then have d: "disputeRaised (escrows w i)" and s: "\<forall>(e, t) \<in> set txs. msg_sender e \<noteq> 0"
    by blast+
  from run_dispute_kept [OF r s d]
  have "disputeRaised (escrows (run tok kec txs w) i)" .
  moreover from reachable_good [OF run_reachable [OF r s], of i]
  have "disputeRaised (escrows (run tok kec txs w) i) \<longrightarrow>
      status (escrows (run tok kec txs w) i) = DISPUTED \<or>
      status (escrows (run tok kec txs w) i) = COMPLETED"
    unfolding good_def by blast
  ultimately show "status (escrows (run tok kec txs w) i) \<noteq> FUNDED" by auto
qed

theorem funded_never_disputed_witness:
  "reachable demo_token demo_kec demo_funded \<and>
   status (escrows demo_funded demo_id) = FUNDED \<and>
   \<not> disputeRaised (escrows demo_funded demo_id) \<and>
   raiseDispute (demo_env bob 1002) demo_id demo_funded = Inr demo_disputed \<and>
   status (escrows demo_disputed demo_id) = DISPUTED \<and>
   disputeRaised (escrows demo_disputed demo_id) \<and>
   reachable demo_token demo_kec demo_disputed \<and>
   status (escrows (run demo_token demo_kec
      [(demo_env arbiter 3000, ResolveDispute demo_id 30)] demo_disputed) demo_id) \<noteq> FUNDED"
proof -
  have s: "\<forall>(e, t) \<in> set [(demo_env arbiter 3000, ResolveDispute demo_id 30)]. msg_sender e \<noteq> 0"
    by (simp add: demo_senders)
  from funded_never_disputed [OF demo_reachable(3), where i = demo_id
      and e = "demo_env bob 1002" and w' = demo_disputed and txs = "[]"] demo_dispute
  have 1: "\<not> disputeRaised (escrows demo_funded demo_id)"
    "status (escrows demo_disputed demo_id) = DISPUTED"
    "disputeRaised (escrows demo_disputed demo_id)"
    by (simp_all add: demo_status)
  from funded_never_disputed [OF demo_reachable(4), where i = demo_id
      and e = "demo_env bob 1002" and w' = demo_disputed
      and txs = "[(demo_env arbiter 3000, ResolveDispute demo_id 30)]"]
    1(3) s
  have 2: "status (escrows (run demo_token demo_kec
      [(demo_env arbiter 3000, ResolveDispute demo_id 30)] demo_disputed) demo_id) \<noteq> FUNDED"
    by blast
  from 1 2 demo_reachable(3,4) demo_dispute demo_status(3) show ?thesis by blast
qed

section \<open>The auto-release deadline\<close>

text \<open>
  Claim C7. \<open>createEscrow\<close> stores \<open>createdAt = block.timestamp\<close> and
  \<open>autoReleaseTime = createdAt + 7 days\<close> (604800 seconds, without wrapping), so every
  created escrow of a reachable state has its deadline seven days after its creation;
  no sequence of transactions changes either field of a created escrow. \<open>autoRelease\<close>
  before the deadline reverts, with "Auto-release time not reached" on a funded escrow
  and with "Escrow not funded" otherwise, and leaves the world as it was. At or after
  the deadline, on a funded escrow with no dispute, \<open>autoRelease\<close> passes every guard:
  when the fee product fits \<open>uint256\<close> and the token accepts the two transfers of the
  payout, it returns and the status is Completed.
\<close>

theorem auto_release_deadline:
  "(createEscrow kec e b s a w = Inr (i, w') \<longrightarrow>
      createdAt (escrows w' i) = block_timestamp e \<and>
      unat (autoReleaseTime (escrows w' i)) = unat (createdAt (escrows w' i)) + 7 * 24 * 60 * 60) \<and>
   (reachable tok kec w \<and> buyer (escrows w i) \<noteq> 0 \<longrightarrow>
      unat (autoReleaseTime (escrows w i)) = unat (createdAt (escrows w i)) + 7 * 24 * 60 * 60) \<and>
   (buyer (escrows w i) \<noteq> 0 \<longrightarrow>
      autoReleaseTime (escrows (run tok kec txs w) i) = autoReleaseTime (escrows w i) \<and>
      createdAt (escrows (run tok kec txs w) i) = createdAt (escrows w i)) \<and>
   (\<not> reentrancy_entered w \<and> block_timestamp e < autoReleaseTime (escrows w i) \<longrightarrow>
      (autoRelease tok e i w = Inl (Revert ''Escrow not funded'') \<or>
       autoRelease tok e i w = Inl (Revert ''Auto-release time not reached'')) \<and>
      (status (escrows w i) = FUNDED \<longrightarrow>
         autoRelease tok e i w = Inl (Revert ''Auto-release time not reached'')) \<and>
      run tok kec [(e, AutoRelease i)] w = w) \<and>
   (reachable tok kec w \<and> status (escrows w i) = FUNDED \<and> \<not> disputeRaised (escrows w i) \<and>
    autoReleaseTime (escrows w i) \<le> block_timestamp e \<and>
    unat (amount (escrows w i)) * unat (platformFeeBps w) < 2 ^ 256 \<and>
    transfer tok (self_address w) (seller (escrows w i))
      (amount (escrows w i) - amount (escrows w i) * platformFeeBps w div 10000)
      (usdc_state w) = Some (True, t1) \<and>
    transfer tok (self_address w) (feeCollector w)
      (amount (escrows w i) * platformFeeBps w div 10000) t1 = Some (True, t2) \<longrightarrow>
      (\<exists>v. autoRelease tok e i w = Inr v \<and> status (escrows v i) = COMPLETED))"
proof (intro conjI impI)
  assume "createEscrow kec e b s a w = Inr (i, w')"
  from createEscrow_Inr [OF this]
  have "escrows w' i = \<lparr> buyer = b, seller = s, amount = a, createdAt = block_timestamp e,
      autoReleaseTime = block_timestamp e + 604800, status = CREATED,
      disputeRaised = False, disputeRaisedBy = 0 \<rparr>"
    "unat (block_timestamp e + 604800) = unat (block_timestamp e) + 604800"
    by simp_all
  then show "createdAt (escrows w' i) = block_timestamp e"
    "unat (autoReleaseTime (escrows w' i)) = unat (createdAt (escrows w' i)) + 7 * 24 * 60 * 60"
    by simp_all
next
  assume "reachable tok kec w \<and> buyer (escrows w i) \<noteq> 0"
  then have r: "reachable tok kec w" and b: "buyer (escrows w i) \<noteq> 0" by blast+
  from reachable_good [OF r, of i] b
  have "unat (autoReleaseTime (escrows w i)) = unat (createdAt (escrows w i)) + 604800"
    unfolding good_def by blast
  then show "unat (autoReleaseTime (escrows w i)) = unat (createdAt (escrows w i)) + 7 * 24 * 60 * 60"
    by simp
next
  assume b: "buyer (escrows w i) \<noteq> 0"
  from run_frozen [OF b, of tok kec txs]
  show "autoReleaseTime (escrows (run tok kec txs w) i) = autoReleaseTime (escrows w i)"
    "createdAt (escrows (run tok kec txs w) i) = createdAt (escrows w i)"
    by blast+
next
  assume "\<not> reentrancy_entered w \<and> block_timestamp e < autoReleaseTime (escrows w i)"
  then have n: "\<not> reentrancy_entered w"
    and l: "\<not> autoReleaseTime (escrows w i) \<le> block_timestamp e"
    by auto
  from n l show 1: "autoRelease tok e i w = Inl (Revert ''Escrow not funded'') \<or>
       autoRelease tok e i w = Inl (Revert ''Auto-release time not reached'')"
    by (simp add: autoRelease_def nonReentrant_def)
  then show "run tok kec [(e, AutoRelease i)] w = w" by auto
  assume "status (escrows w i) = FUNDED"
  with n l show "autoRelease tok e i w = Inl (Revert ''Auto-release time not reached'')"
    by (simp add: autoRelease_def nonReentrant_def)
next
  assume h: "reachable tok kec w \<and> status (escrows w i) = FUNDED \<and> \<not> disputeRaised (escrows w i) \<and>
    autoReleaseTime (escrows w i) \<le> block_timestamp e \<and>
    unat (amount (escrows w i)) * unat (platformFeeBps w) < 2 ^ 256 \<and>
    transfer tok (self_address w) (seller (escrows w i))
      (amount (escrows w i) - amount (escrows w i) * platformFeeBps w div 10000)
      (usdc_state w) = Some (True, t1) \<and>
    transfer tok (self_address w) (feeCollector w)
      (amount (escrows w i) * platformFeeBps w div 10000) t1 = Some (True, t2)"
  then have r: "reachable tok kec w" by blast
  from reachable_config_ok [OF r]
  have c: "\<not> reentrancy_entered w" "platformFeeBps w \<le> 1000"
    unfolding config_ok_def by blast+
  define v where "v = w\<lparr>reentrancy_entered := True\<rparr>"
  have ev: "escrows v = escrows w" "platformFeeBps v = platformFeeBps w"
    "self_address v = self_address w" "feeCollector v = feeCollector w"
    "usdc_state v = usdc_state w"
    by (simp_all add: v_def)
  from h have o: "unat (amount (escrows w i)) * unat (platformFeeBps w) < 2 ^ 256"
    and x1: "transfer tok (self_address w) (seller (escrows w i))
      (amount (escrows w i) - amount (escrows w i) * platformFeeBps w div 10000)
      (usdc_state w) = Some (True, t1)"
    and x2: "transfer tok (self_address w) (feeCollector w)
      (amount (escrows w i) * platformFeeBps w div 10000) t1 = Some (True, t2)"
    by blast+
  have "\<exists>w'. completeEscrow tok i v = Inr w' \<and> status (escrows w' i) = COMPLETED"
  proof (rule completeEscrow_succeeds)
    show "platformFeeBps v \<le> 1000" unfolding ev by (rule c(2))
    show "unat (amount (escrows v i)) * unat (platformFeeBps v) < 2 ^ 256"
      unfolding ev by (rule o)
    show "transfer tok (self_address v) (seller (escrows v i))
           (amount (escrows v i) - amount (escrows v i) * platformFeeBps v div 10000)
           (usdc_state v) = Some (True, t1)"
      unfolding ev by (rule x1)
    show "transfer tok (self_address v) (feeCollector v)
           (amount (escrows v i) * platformFeeBps v div 10000) t1 = Some (True, t2)"
      unfolding ev by (rule x2)
  qed
  then obtain w1 where w1: "completeEscrow tok i v = Inr w1" "status (escrows w1 i) = COMPLETED"
    by blast
  from h have g: "status (escrows w i) = FUNDED" "\<not> disputeRaised (escrows w i)"
    "autoReleaseTime (escrows w i) \<le> block_timestamp e"
    by blast+
  from g c(1) w1 show "\<exists>v. autoRelease tok e i w = Inr v \<and> status (escrows v i) = COMPLETED"
    by (simp add: autoRelease_def nonReentrant_def v_def [symmetric] emit_def ev)
qed


theorem auto_release_deadline_witness:
  "createEscrow demo_kec (demo_env alice 1000) alice bob 1000000 demo_deployed
     = Inr (demo_id, demo_created) \<and>
   createdAt (escrows demo_created demo_id) = 1000 \<and>
   autoReleaseTime (escrows demo_created demo_id) = 605800 \<and>
   reachable demo_token demo_kec demo_funded \<and> buyer (escrows demo_funded demo_id) \<noteq> 0 \<and>
   unat (autoReleaseTime (escrows demo_funded demo_id))
     = unat (createdAt (escrows demo_funded demo_id)) + 7 * 24 * 60 * 60 \<and>
   autoReleaseTime (escrows (run demo_token demo_kec
       [(demo_env alice 2000, ReleaseFunds demo_id)] demo_funded) demo_id)
     = autoReleaseTime (escrows demo_funded demo_id) \<and>
   block_timestamp (demo_env carol 605799) < autoReleaseTime (escrows demo_funded demo_id) \<and>
   autoRelease demo_token (demo_env carol 605799) demo_id demo_funded
     = Inl (Revert ''Auto-release time not reached'') \<and>
   autoReleaseTime (escrows demo_funded demo_id) \<le> block_timestamp (demo_env carol 605800) \<and>
   (\<exists>v. autoRelease demo_token (demo_env carol 605800) demo_id demo_funded = Inr v \<and>
        status (escrows v demo_id) = COMPLETED)"
proof -
  have f: "buyer (escrows demo_funded demo_id) \<noteq> 0" "\<not> reentrancy_entered demo_funded"
    "block_timestamp (demo_env carol 605799) < autoReleaseTime (escrows demo_funded demo_id)"
    "autoReleaseTime (escrows demo_funded demo_id) \<le> block_timestamp (demo_env carol 605800)"
    "unat (amount (escrows demo_funded demo_id)) * unat (platformFeeBps demo_funded) < 2 ^ 256"
    "createdAt (escrows demo_created demo_id) = 1000"
    "autoReleaseTime (escrows demo_created demo_id) = 605800"
    by (simp_all add: demo_defs2)
  note t = auto_release_deadline [where tok = demo_token and kec = demo_kec and i = demo_id
      and w = demo_funded and txs = "[(demo_env alice 2000, ReleaseFunds demo_id)]"
      and ?t1.0 = "(\<lambda>_. 0)(alice := 4000000, escrow_contract := 5000, bob := 995000)"
      and ?t2.0 = "usdc_state demo_released"]
  from t [where e = "demo_env carol 605799" and b = alice and s = bob and a = 1000000
      and w' = demo_created] f demo_reachable(3) demo_status(3)
  have 1: "unat (autoReleaseTime (escrows demo_funded demo_id))
     = unat (createdAt (escrows demo_funded demo_id)) + 7 * 24 * 60 * 60"
    "autoReleaseTime (escrows (run demo_token demo_kec
       [(demo_env alice 2000, ReleaseFunds demo_id)] demo_funded) demo_id)
     = autoReleaseTime (escrows demo_funded demo_id)"
    "autoRelease demo_token (demo_env carol 605799) demo_id demo_funded
     = Inl (Revert ''Auto-release time not reached'')"
    by blast+
  from t [where e = "demo_env carol 605800" and b = alice and s = bob and a = 1000000
      and w' = demo_created] f demo_reachable(3) demo_status(3) demo_flags(1) demo_transfers
  have 2: "\<exists>v. autoRelease demo_token (demo_env carol 605800) demo_id demo_funded = Inr v \<and>
        status (escrows v demo_id) = COMPLETED"
    by blast
  from auto_release_deadline [where kec = demo_kec and e = "demo_env alice 1000" and b = alice
      and s = bob and a = 1000000 and w = demo_deployed and i = demo_id and w' = demo_created]
    demo_create
  have 3: "createdAt (escrows demo_created demo_id) = block_timestamp (demo_env alice 1000)"
    by blast
  from 1 2 3 f demo_create demo_reachable(3) show ?thesis by blast
qed

section \<open>The dispute flag\<close>

text \<open>
  Claim C2, as the contract has it. \<open>resolveDispute\<close> writes the status only: on the
  disputed example escrow it returns with the status Completed and \<open>disputeRaised\<close>
  still true, so the flag is not cleared by the resolution.
\<close>

theorem dispute_flag_cleared_counterexample:
  "dispute_view demo_id (Inr demo_disputed) = Inr (DISPUTED, True) \<and>
   dispute_view demo_id
     (resolveDispute demo_token (demo_env arbiter 3000) demo_id 30 demo_disputed)
     = Inr (COMPLETED, True)"
  by (simp add: dispute_view_def demo_resolve demo_status demo_flags)

text \<open>
  Claim C2, amended. No function of the contract writes \<open>disputeRaised\<close> back to false:
  a successful \<open>resolveDispute\<close> needs the status Disputed, sets it to Completed and
  leaves the flag as it was, which in a reachable state is true; and from a reachable
  state a flag that is set stays set along every sequence of transactions.
\<close>

theorem dispute_flag_never_cleared:
  "(resolveDispute tok e i p w = Inr w' \<longrightarrow>
      status (escrows w i) = DISPUTED \<and> status (escrows w' i) = COMPLETED \<and>
      disputeRaised (escrows w' i) = disputeRaised (escrows w i)) \<and>
   (reachable tok kec w \<and> resolveDispute tok e i p w = Inr w' \<longrightarrow>
      disputeRaised (escrows w' i)) \<and>
   (reachable tok kec w \<and> (\<forall>(e, t) \<in> set txs. msg_sender e \<noteq> 0) \<and>
    disputeRaised (escrows w i) \<longrightarrow>
      disputeRaised (escrows (run tok kec txs w) i))"
proof (intro conjI impI)
  assume "resolveDispute tok e i p w = Inr w'"
  from resolveDispute_escrows [OF this]
  show "status (escrows w i) = DISPUTED" "status (escrows w' i) = COMPLETED"
    "disputeRaised (escrows w' i) = disputeRaised (escrows w i)"
    by simp_all
next
  assume "reachable tok kec w \<and> resolveDispute tok e i p w = Inr w'"
  then have r: "reachable tok kec w" and x: "resolveDispute tok e i p w = Inr w'" by blast+
  from resolveDispute_escrows [OF x]
  have "status (escrows w i) = DISPUTED"
    "disputeRaised (escrows w' i) = disputeRaised (escrows w i)"
    by simp_all
  moreover from reachable_good [OF r, of i]
  have "status (escrows w i) = DISPUTED \<longrightarrow> disputeRaised (escrows w i)"
    unfolding good_def by blast
  ultimately show "disputeRaised (escrows w' i)" by blast
next
  assume "reachable tok kec w \<and> (\<forall>(e, t) \<in> set txs. msg_sender e \<noteq> 0) \<and>
    disputeRaised (escrows w i)"
  then show "disputeRaised (escrows (run tok kec txs w) i)"
    using run_dispute_kept by blast
qed

theorem dispute_flag_never_cleared_witness:
  "reachable demo_token demo_kec demo_disputed \<and>
   resolveDispute demo_token (demo_env arbiter 3000) demo_id 30 demo_disputed = Inr demo_resolved \<and>
   status (escrows demo_disputed demo_id) = DISPUTED \<and>
   disputeRaised (escrows demo_disputed demo_id) \<and>
   status (escrows demo_resolved demo_id) = COMPLETED \<and>
   disputeRaised (escrows demo_resolved demo_id) \<and>
   disputeRaised (escrows (run demo_token demo_kec
      [(demo_env arbiter 3000, ResolveDispute demo_id 30),
       (demo_env alice 3001, ReleaseFunds demo_id)] demo_disputed) demo_id)"
proof -
  have s: "\<forall>(e, t) \<in> set [(demo_env arbiter 3000, ResolveDispute demo_id 30),
       (demo_env alice 3001, ReleaseFunds demo_id)]. msg_sender e \<noteq> 0"
    by (simp add: demo_senders)
  from dispute_flag_never_cleared [where tok = demo_token and kec = demo_kec
      and e = "demo_env arbiter 3000" and i = demo_id and p = 30 and w = demo_disputed
      and w' = demo_resolved
      and txs = "[(demo_env arbiter 3000, ResolveDispute demo_id 30),
                  (demo_env alice 3001, ReleaseFunds demo_id)]"]
    demo_reachable(4) demo_resolve demo_flags(2) s
  show ?thesis by blast
qed

section \<open>Reading an escrow\<close>

text \<open>
  Claim C4, as the contract has it. \<open>getEscrow\<close> has no failure: for the identifier 7,
  which no \<open>createEscrow\<close> of the example ever produced, it returns the zero record.
\<close>

theorem get_escrow_not_found_counterexample:
  "\<not> list_ex (is_created 7) (events demo_funded) \<and>
   getEscrow demo_funded 7 = Inr (0, 0, 0, 0, 0, CREATED, False)"
  by (simp add: getEscrow_def demo_funded_def demo_created_def demo_deployed_def demo_id_def
        zero_escrow_def)

text \<open>
  Claim C4, amended. \<open>getEscrow\<close> always returns the seven fields of the slot. In a
  reachable state, an identifier that was never created (no \<open>EscrowCreated\<close> event for
  it) reads as the zero record: buyer, seller, amount and both times 0, status Created,
  no dispute. An identifier that was created has a buyer other than \<open>address(0)\<close>, so
  the two are told apart by the buyer field, which is how \<open>createEscrow\<close> itself tests
  for an existing escrow.
\<close>

theorem get_escrow_unknown_is_zero:
  "getEscrow w i = Inr (buyer (escrows w i), seller (escrows w i), amount (escrows w i),
       createdAt (escrows w i), autoReleaseTime (escrows w i), status (escrows w i),
       disputeRaised (escrows w i)) \<and>
   (reachable tok kec w \<and> \<not> list_ex (is_created i) (events w) \<longrightarrow>
      getEscrow w i = Inr (0, 0, 0, 0, 0, CREATED, False)) \<and>
   (reachable tok kec w \<and> list_ex (is_created i) (events w) \<longrightarrow>
      buyer (escrows w i) \<noteq> 0 \<and> getEscrow w i \<noteq> Inr (0, 0, 0, 0, 0, CREATED, False))"
proof (intro conjI impI)
  show g: "getEscrow w i = Inr (buyer (escrows w i), seller (escrows w i), amount (escrows w i),
       createdAt (escrows w i), autoReleaseTime (escrows w i), status (escrows w i),
       disputeRaised (escrows w i))"
    by (simp add: getEscrow_def Let_def)
  {
    assume "reachable tok kec w \<and> \<not> list_ex (is_created i) (events w)"
    then have r: "reachable tok kec w" and n: "\<not> list_ex (is_created i) (events w)" by blast+
    from reachable_created_link [OF r, of i] n have "buyer (escrows w i) = 0"
      unfolding created_link_def by blast
    with reachable_good [OF r, of i]
    have "seller (escrows w i) = 0 \<and> amount (escrows w i) = 0 \<and> createdAt (escrows w i) = 0 \<and>
        autoReleaseTime (escrows w i) = 0 \<and> status (escrows w i) = CREATED \<and>
        \<not> disputeRaised (escrows w i)"
      unfolding good_def by blast
    with \<open>buyer (escrows w i) = 0\<close> show "getEscrow w i = Inr (0, 0, 0, 0, 0, CREATED, False)"
      by (simp add: g)
  }
  assume "reachable tok kec w \<and> list_ex (is_created i) (events w)"
  then have r: "reachable tok kec w" and n: "list_ex (is_created i) (events w)" by blast+
  from reachable_created_link [OF r, of i] n show b: "buyer (escrows w i) \<noteq> 0"
    unfolding created_link_def by blast
  then show "getEscrow w i \<noteq> Inr (0, 0, 0, 0, 0, CREATED, False)"
    by (simp add: g)
qed

theorem get_escrow_unknown_is_zero_witness:
  "reachable demo_token demo_kec demo_funded \<and>
   \<not> list_ex (is_created 7) (events demo_funded) \<and>
   getEscrow demo_funded 7 = Inr (0, 0, 0, 0, 0, CREATED, False) \<and>
   list_ex (is_created demo_id) (events demo_funded) \<and>
   buyer (escrows demo_funded demo_id) \<noteq> 0 \<and>
   getEscrow demo_funded demo_id \<noteq> Inr (0, 0, 0, 0, 0, CREATED, False)"
proof -
  have e: "\<not> list_ex (is_created 7) (events demo_funded)"
    "list_ex (is_created demo_id) (events demo_funded)"
    by (simp_all add: demo_funded_def demo_created_def demo_deployed_def demo_id_def)
  from get_escrow_unknown_is_zero [of demo_funded 7 demo_token demo_kec]
    get_escrow_unknown_is_zero [of demo_funded demo_id demo_token demo_kec]
    demo_reachable(3) e
  show ?thesis by blast
qed

section \<open>Which transfers are made\<close>

text \<open>
  Claim C3, as the contract has it. After the owner has set the fee to zero basis
  points, \<open>releaseFunds\<close> on the example escrow still calls the token for the fee
  collector, with the amount 0: a zero fee is transferred, not skipped.
\<close>

theorem zero_fee_transfer_counterexample:
  "updatePlatformFee (demo_env arbiter 1500) 0 demo_funded = Inr demo_nofee \<and>
   platformFeeBps demo_nofee = 0 \<and>
   transfers_made demo_nofee
     (releaseFunds demo_token (demo_env alice 2000) demo_id demo_nofee)
     = Inr [Transfer bob 1000000, Transfer carol 0]"
  by (simp add: updatePlatformFee_def releaseFunds_def transfers_made_def new_calls_def
        op_defs demo_defs2 demo_nofee_def)

text \<open>
  Claim C3, amended. For every percentage, \<open>resolveDispute\<close> skips the buyer's transfer
  when the buyer's share is zero and skips the seller's and the fee collector's
  transfers together when the seller's share is zero: with 100 percent the only call is
  the one to the buyer, with 0 percent there is no call to the buyer. A zero fee alone
  is not skipped: \<open>releaseFunds\<close> and \<open>autoRelease\<close> always make both calls, the second
  one with the amount 0 when the fee is 0 basis points, and \<open>resolveDispute\<close> makes the
  call to the fee collector whenever the seller's share is above zero, with the amount 0
  when the fee is 0 basis points.
\<close>

theorem zero_share_transfers_skipped:
  "(transfers_made w (resolveDispute tok e i p w) = Inr cs \<longrightarrow>
      (let a = amount (escrows w i); buyerAmount = a * p div 100;
           sellerAmount = a - buyerAmount; fee = sellerAmount * platformFeeBps w div 10000 in
       cs = (if buyerAmount > 0 then [Transfer (buyer (escrows w i)) buyerAmount] else []) @
            (if sellerAmount > 0 then [Transfer (seller (escrows w i)) (sellerAmount - fee),
                                       Transfer (feeCollector w) fee] else []) \<and>
       (sellerAmount > 0 \<longrightarrow> Transfer (feeCollector w) fee \<in> set cs) \<and>
       (sellerAmount > 0 \<and> platformFeeBps w = 0 \<longrightarrow> Transfer (feeCollector w) 0 \<in> set cs))) \<and>
   (transfers_made w (resolveDispute tok e i 100 w) = Inr cs \<longrightarrow>
      cs = (if amount (escrows w i) > 0
         then [Transfer (buyer (escrows w i)) (amount (escrows w i))] else [])) \<and>
   (transfers_made w (resolveDispute tok e i 0 w) = Inr cs \<longrightarrow>
      cs = (if amount (escrows w i) > 0
         then [Transfer (seller (escrows w i))
                 (amount (escrows w i) - amount (escrows w i) * platformFeeBps w div 10000),
               Transfer (feeCollector w) (amount (escrows w i) * platformFeeBps w div 10000)]
         else [])) \<and>
   (transfers_made w (releaseFunds tok e i w) = Inr cs \<or>
    transfers_made w (autoRelease tok e i w) = Inr cs \<longrightarrow>
      cs = [Transfer (seller (escrows w i))
              (amount (escrows w i) - amount (escrows w i) * platformFeeBps w div 10000),
            Transfer (feeCollector w) (amount (escrows w i) * platformFeeBps w div 10000)] \<and>
      (platformFeeBps w = 0 \<longrightarrow>
         cs = [Transfer (seller (escrows w i)) (amount (escrows w i)),
               Transfer (feeCollector w) 0]))"
proof -
  have g: "let a = amount (escrows w i); buyerAmount = a * p div 100;
           sellerAmount = a - buyerAmount; fee = sellerAmount * platformFeeBps w div 10000 in
       cs = (if buyerAmount > 0 then [Transfer (buyer (escrows w i)) buyerAmount] else []) @
            (if sellerAmount > 0 then [Transfer (seller (escrows w i)) (sellerAmount - fee),
                                       Transfer (feeCollector w) fee] else []) \<and>
       (sellerAmount > 0 \<longrightarrow> Transfer (feeCollector w) fee \<in> set cs) \<and>
       (sellerAmount > 0 \<and> platformFeeBps w = 0 \<longrightarrow> Transfer (feeCollector w) 0 \<in> set cs)"
    if h: "transfers_made w (resolveDispute tok e i p w) = Inr cs"
  proof -
    from transfers_made_Inr [OF h] obtain w' where
      x: "resolveDispute tok e i p w = Inr w'" and c: "cs = new_calls w w'" by blast
    from resolveDispute_Inr [OF x]
    have "\<exists>t. w' = w\<lparr>usdc_state := t,
            calls := calls w
              @ (if amount (escrows w i) * p div 100 > 0
                 then [Transfer (buyer (escrows w i)) (amount (escrows w i) * p div 100)] else [])
              @ (if amount (escrows w i) - amount (escrows w i) * p div 100 > 0
                 then [Transfer (seller (escrows w i))
                         ((amount (escrows w i) - amount (escrows w i) * p div 100)
                          - (amount (escrows w i) - amount (escrows w i) * p div 100)
                            * platformFeeBps w div 10000),
                       Transfer (feeCollector w)
                         ((amount (escrows w i) - amount (escrows w i) * p div 100)
                          * platformFeeBps w div 10000)]
                 else []),
            escrows := (escrows w)(i := (escrows w i)\<lparr>status := COMPLETED\<rparr>),
            events := events w @
              [DisputeResolved i (amount (escrows w i) * p div 100)
                 (amount (escrows w i) - amount (escrows w i) * p div 100)],
            reentrancy_entered := False\<rparr>"
      by blast
    then have "new_calls w w' =
        (if amount (escrows w i) * p div 100 > 0
         then [Transfer (buyer (escrows w i)) (amount (escrows w i) * p div 100)] else [])
        @ (if amount (escrows w i) - amount (escrows w i) * p div 100 > 0
           then [Transfer (seller (escrows w i))
                   ((amount (escrows w i) - amount (escrows w i) * p div 100)
                    - (amount (escrows w i) - amount (escrows w i) * p div 100)
                      * platformFeeBps w div 10000),
                 Transfer (feeCollector w)
                   ((amount (escrows w i) - amount (escrows w i) * p div 100)
                    * platformFeeBps w div 10000)]
           else [])"
      by (auto simp: new_calls_def)
    with c show ?thesis by (auto simp: Let_def)
  qed
  from g zero_share_cases [of w tok e i cs] show ?thesis by blast
qed

theorem zero_share_transfers_skipped_witness:
  "transfers_made demo_disputed
     (resolveDispute demo_token (demo_env arbiter 3000) demo_id 100 demo_disputed)
     = Inr [Transfer alice 1000000] \<and>
   transfers_made demo_disputed
     (resolveDispute demo_token (demo_env arbiter 3000) demo_id 0 demo_disputed)
     = Inr [Transfer bob 995000, Transfer carol 5000] \<and>
   platformFeeBps demo_nofee = 0 \<and> platformFeeBps demo_nofee_disputed = 0 \<and>
   raiseDispute (demo_env bob 1600) demo_id demo_nofee = Inr demo_nofee_disputed \<and>
   transfers_made demo_nofee_disputed
     (resolveDispute demo_token (demo_env arbiter 3000) demo_id 30 demo_nofee_disputed)
     = Inr [Transfer alice 300000, Transfer bob 700000, Transfer carol 0] \<and>
   Transfer (feeCollector demo_nofee_disputed) 0
     \<in> set [Transfer alice 300000, Transfer bob 700000, Transfer carol 0] \<and>
   transfers_made demo_nofee
     (releaseFunds demo_token (demo_env alice 2000) demo_id demo_nofee)
     = Inr [Transfer (seller (escrows demo_nofee demo_id)) (amount (escrows demo_nofee demo_id)),
            Transfer (feeCollector demo_nofee) 0] \<and>
   transfers_made demo_nofee
     (autoRelease demo_token (demo_env carol 605800) demo_id demo_nofee)
     = Inr [Transfer (seller (escrows demo_nofee demo_id)) (amount (escrows demo_nofee demo_id)),
            Transfer (feeCollector demo_nofee) 0]"
proof -
  have z: "platformFeeBps demo_nofee = 0" "platformFeeBps demo_nofee_disputed = 0"
    "0 < amount (escrows demo_nofee_disputed demo_id)
         - amount (escrows demo_nofee_disputed demo_id) * 30 div 100"
    by (simp_all add: demo_nofee_def demo_nofee_disputed_def demo_defs2)
  from zero_share_transfers_skipped [where tok = demo_token and e = "demo_env alice 2000"
      and i = demo_id and w = demo_nofee and cs = "[Transfer bob 1000000, Transfer carol 0]"]
    demo_payouts(3) z(1)
  have 1: "[Transfer bob 1000000, Transfer carol 0]
      = [Transfer (seller (escrows demo_nofee demo_id)) (amount (escrows demo_nofee demo_id)),
         Transfer (feeCollector demo_nofee) 0]"
    by blast
  from zero_share_transfers_skipped [where tok = demo_token and e = "demo_env carol 605800"
      and i = demo_id and w = demo_nofee and cs = "[Transfer bob 1000000, Transfer carol 0]"]
    demo_payouts_nofee(3) z(1)
  have 2: "[Transfer bob 1000000, Transfer carol 0]
      = [Transfer (seller (escrows demo_nofee demo_id)) (amount (escrows demo_nofee demo_id)),
         Transfer (feeCollector demo_nofee) 0]"
    by blast
  from zero_share_transfers_skipped [where tok = demo_token and e = "demo_env arbiter 3000"
      and i = demo_id and w = demo_disputed and cs = "[Transfer alice 1000000]"]
    demo_payouts(1)
  have 3: "[Transfer alice 1000000] = (if amount (escrows demo_disputed demo_id) > 0
         then [Transfer (buyer (escrows demo_disputed demo_id))
                 (amount (escrows demo_disputed demo_id))] else [])"
    by blast
  from zero_share_transfers_skipped [where tok = demo_token and e = "demo_env arbiter 3000"
      and i = demo_id and w = demo_nofee_disputed and p = 30
      and cs = "[Transfer alice 300000, Transfer bob 700000, Transfer carol 0]"]
    demo_payouts_nofee(2) z(2,3)
  have 4: "Transfer (feeCollector demo_nofee_disputed) 0
     \<in> set [Transfer alice 300000, Transfer bob 700000, Transfer carol 0]"
    unfolding Let_def by blast
  from 1 2 3 4 z demo_payouts demo_payouts_nofee show ?thesis by simp
qed

text \<open>
  Claim C8. For a disputed escrow of a reachable state, \<open>resolveDispute\<close> with 0
  percent, called by the owner, has the outcome of the payout of a release on that
  escrow: the same revert, or the same two token calls, the seller receiving the amount
  less the fee at the current rate and the fee collector the fee, and no call to the
  buyer. With 100 percent the only call transfers the whole amount to the buyer: no fee
  is taken.
\<close>

theorem resolve_extremes:
  "reachable tok kec w \<Longrightarrow> status (escrows w i) = DISPUTED \<Longrightarrow>
     (owner w = msg_sender e \<longrightarrow>
        transfers_made w (resolveDispute tok e i 0 w)
          = transfers_made w (completeEscrow tok i w)) \<and>
     (transfers_made w (resolveDispute tok e i 0 w) = Inr cs \<longrightarrow>
        cs = [Transfer (seller (escrows w i))
                (amount (escrows w i) - amount (escrows w i) * platformFeeBps w div 10000),
              Transfer (feeCollector w) (amount (escrows w i) * platformFeeBps w div 10000)] \<and>
        unat (amount (escrows w i) * platformFeeBps w div 10000)
          = unat (amount (escrows w i)) * unat (platformFeeBps w) div 10000 \<and>
        unat (amount (escrows w i) - amount (escrows w i) * platformFeeBps w div 10000)
          = unat (amount (escrows w i))
            - unat (amount (escrows w i)) * unat (platformFeeBps w) div 10000) \<and>
     (transfers_made w (resolveDispute tok e i 100 w) = Inr cs \<longrightarrow>
        cs = [Transfer (buyer (escrows w i)) (amount (escrows w i))])"
proof (intro conjI impI)
  assume r: "reachable tok kec w" and d: "status (escrows w i) = DISPUTED"
  from reachable_config_ok [OF r] have n: "\<not> reentrancy_entered w"
    unfolding config_ok_def by blast
  from reachable_good [OF r, of i] d have "buyer (escrows w i) \<noteq> 0"
    unfolding good_def by auto
  with reachable_good [OF r, of i] have a: "amount (escrows w i) > 0"
    unfolding good_def by blast
  {
    assume "owner w = msg_sender e"
    then show "transfers_made w (resolveDispute tok e i 0 w)
          = transfers_made w (completeEscrow tok i w)"
      using n d a by (rule resolve_zero_as_release)
  }
  {
    assume "transfers_made w (resolveDispute tok e i 0 w) = Inr cs"
    from transfers_made_Inr [OF this] obtain w' where
      x: "resolveDispute tok e i 0 w = Inr w'" and c: "cs = new_calls w w'" by blast
    from payout_calls [of tok e i w w'] x c a
    show "cs = [Transfer (seller (escrows w i))
                (amount (escrows w i) - amount (escrows w i) * platformFeeBps w div 10000),
              Transfer (feeCollector w) (amount (escrows w i) * platformFeeBps w div 10000)]"
      by simp
    from resolveDispute_Inr [OF x]
    have "fee_split (amount (escrows w i) - amount (escrows w i) * 0 div 100) (platformFeeBps w)"
      by blast
    then have f: "fee_split (amount (escrows w i)) (platformFeeBps w)" by simp
    from f show "unat (amount (escrows w i) * platformFeeBps w div 10000)
          = unat (amount (escrows w i)) * unat (platformFeeBps w) div 10000"
      unfolding fee_split_def by blast
    from f show "unat (amount (escrows w i) - amount (escrows w i) * platformFeeBps w div 10000)
          = unat (amount (escrows w i))
            - unat (amount (escrows w i)) * unat (platformFeeBps w) div 10000"
      unfolding fee_split_def by presburger
  }
  assume "transfers_made w (resolveDispute tok e i 100 w) = Inr cs"
  from transfers_made_Inr [OF this] obtain w' where
    x: "resolveDispute tok e i 100 w = Inr w'" and c: "cs = new_calls w w'" by blast
  from payout_calls [of tok e i w w'] x c a
  show "cs = [Transfer (buyer (escrows w i)) (amount (escrows w i))]"
    by simp
qed

theorem resolve_extremes_witness:
  "reachable demo_token demo_kec demo_disputed \<and>
   status (escrows demo_disputed demo_id) = DISPUTED \<and>
   owner demo_disputed = msg_sender (demo_env arbiter 3000) \<and>
   transfers_made demo_disputed
     (resolveDispute demo_token (demo_env arbiter 3000) demo_id 0 demo_disputed)
     = transfers_made demo_disputed (completeEscrow demo_token demo_id demo_disputed) \<and>
   transfers_made demo_disputed
     (resolveDispute demo_token (demo_env arbiter 3000) demo_id 0 demo_disputed)
     = Inr [Transfer bob 995000, Transfer carol 5000] \<and>
   transfers_made demo_disputed
     (resolveDispute demo_token (demo_env arbiter 3000) demo_id 100 demo_disputed)
     = Inr [Transfer alice 1000000] \<and>
   [Transfer alice 1000000]
     = [Transfer (buyer (escrows demo_disputed demo_id)) (amount (escrows demo_disputed demo_id))]"
proof -
  have o: "owner demo_disputed = msg_sender (demo_env arbiter 3000)"
    by (simp add: demo_defs2)
  note t = resolve_extremes [OF demo_reachable(4) demo_status(5),
      where e = "demo_env arbiter 3000"]
  from t [where cs = "[Transfer bob 995000, Transfer carol 5000]"] o
  have 1: "transfers_made demo_disputed
     (resolveDispute demo_token (demo_env arbiter 3000) demo_id 0 demo_disputed)
     = transfers_made demo_disputed (completeEscrow demo_token demo_id demo_disputed)"
    by blast
  from t [where cs = "[Transfer alice 1000000]"] demo_payouts(1)
  have 2: "[Transfer alice 1000000]
     = [Transfer (buyer (escrows demo_disputed demo_id)) (amount (escrows demo_disputed demo_id))]"
    by blast
  from 1 2 o demo_reachable(4) demo_status(5) demo_payouts(1,2) show ?thesis by blast
qed

end
